theory Spec2Isabelle
  imports Main "HOL-Library.Word"
begin

section \<open>Errors\<close>

text \<open>
  The Go runtime panics of the modelled code are values. A function that can panic returns
  \<open>error + 'a\<close>, with \<open>Inl\<close> for the panic.
\<close>

datatype error =
    UUIDPanic          \<comment> \<open>\<open>log.Panic\<close> after a failed \<open>uuid.NewTimeBased\<close>\<close>
  | SliceBounds        \<comment> \<open>slice bounds out of range\<close>
  | IndexOutOfRange    \<comment> \<open>index out of range\<close>
  | NilDereference     \<comment> \<open>field read through a nil pointer\<close>

section \<open>The tracker (p2p-cp/cp.go, DHTRouter)\<close>

subsection \<open>Data\<close>

text \<open>
  \<open>commons.DHTRequest\<close> and \<open>commons.DHTResponse\<close> are declared outside the files at hand;
  the fields are the ones cp.go reads and writes. The two structs share the field names
  \<open>Command\<close> and \<open>Id\<close>, so the record fields carry the prefixes \<open>req\<close> and \<open>resp\<close>.
\<close>

record DHTRequest =
  reqCommand :: string
  reqId :: string
  reqHash :: string
  reqPort :: string

record DHTResponse =
  respCommand :: string
  respId :: string
  respDest :: string

text \<open>
  A \<open>net.UDPAddr\<close> as the tracker uses it: the IP and the port in their printed form;
  \<open>UDPAddr_String\<close> is \<open>(*UDPAddr).String\<close> for an IPv4 address (the tracker listens on
  \<open>udp4\<close>), which prints a nil pointer as \<open><nil>\<close>.
\<close>

record UDPAddr =
  IP :: string
  Port :: string

definition UDPAddr_String :: "UDPAddr option \<Rightarrow> string" where
  "UDPAddr_String a = (case a of None \<Rightarrow> ''<nil>'' | Some u \<Rightarrow> IP u @ '':'' @ Port u)"

text \<open>
  The struct \<open>Node\<close>. \<open>Addr\<close> is a \<open>*net.UDPAddr\<close> that the tracker only ever prints, so it is
  kept in its printed form; \<open>LastPing\<close> is never read or written and is left out.
\<close>

record Node =
  ID :: string
  Endpoint :: string
  ConnectionAddress :: string
  AssociatedHash :: string
  Addr :: string
  MissedPing :: int
  Disabled :: bool

record Infohash =
  Hash :: string
  NodeAddr :: string

text \<open>The tracker's state: the global \<open>NodeList\<close> and the field \<open>Hashes\<close> of \<open>DHTRouter\<close>.\<close>

record tracker =
  NodeList :: "Node list"
  Hashes :: "Infohash list"

definition CMD_CONN :: string where "CMD_CONN = ''conn''"
definition CMD_FIND :: string where "CMD_FIND = ''find''"
definition CMD_PING :: string where "CMD_PING = ''ping''"

subsection \<open>IsNewPeer, RegisterHash, ResponseFind\<close>

fun IsNewPeer :: "Node list \<Rightarrow> string \<Rightarrow> bool" where
  "IsNewPeer [] addr = True"
| "IsNewPeer (node # rest) addr =
     (if ConnectionAddress node = addr then False else IsNewPeer rest addr)"

fun RegisterHash :: "Node list \<Rightarrow> string \<Rightarrow> string \<Rightarrow> Node list" where
  "RegisterHash [] addr hash = []"
| "RegisterHash (node # rest) addr hash =
     (if ConnectionAddress node = addr then node\<lparr>AssociatedHash := hash\<rparr> else node)
       # RegisterHash rest addr hash"

text \<open>
  The scan of \<open>ResponseFind\<close>, with its two loop variables \<open>foundDest\<close> and \<open>hashExists\<close>
  as accumulators.
\<close>

fun find_scan :: "Node list \<Rightarrow> string \<Rightarrow> string \<Rightarrow> string \<Rightarrow> bool \<Rightarrow> string \<times> bool" where
  "find_scan [] hash addr foundDest hashExists = (foundDest, hashExists)"
| "find_scan (node # rest) hash addr foundDest hashExists =
     (if AssociatedHash node = hash then
        (if ConnectionAddress node = addr then find_scan rest hash addr foundDest True
         else find_scan rest hash addr (foundDest @ Endpoint node @ '','') hashExists)
      else find_scan rest hash addr foundDest hashExists)"

definition ResponseFind :: "tracker \<Rightarrow> DHTRequest \<Rightarrow> string \<Rightarrow> DHTResponse \<times> tracker" where
  "ResponseFind dht req addr =
     (case find_scan (NodeList dht) (reqHash req) addr [] False of
        (foundDest, hashExists) \<Rightarrow>
          (\<lparr>respCommand = reqCommand req, respId = ''0'', respDest = foundDest\<rparr>,
           if \<not> hashExists
           then dht\<lparr>NodeList := RegisterHash (NodeList dht) addr (reqHash req)\<rparr>
           else dht))"

text \<open>
  The client's reading of a \<open>dest\<close> field (\<open>DHTClient.UpdateLastCatch\<close>):
  \<open>strings.Split(catch, ",")\<close>, the empty pieces skipped.
\<close>

fun split_comma :: "string \<Rightarrow> string \<Rightarrow> string list" where
  "split_comma [] cur = [cur]"
| "split_comma (c # cs) cur =
     (if c = CHR '','' then cur # split_comma cs [] else split_comma cs (cur @ [c]))"

definition dest_entries :: "string \<Rightarrow> string list" where
  "dest_entries catch = filter (\<lambda>p. p \<noteq> []) (split_comma catch [])"

subsection \<open>Registration: GenerateID and the head of Listen\<close>

text \<open>
  \<open>Node.GenerateID\<close> draws from \<open>uuid.NewTimeBased\<close>, a library call: the model takes the
  values it returns, in order, as the list \<open>uuids\<close> (\<open>None\<close> where the call returns an error).
  The loop over \<open>hashes\<close> keeps its variable \<open>unique\<close>; the recursive retry draws the next
  value. A run that uses up the list without returning is \<open>None\<close>.
\<close>

fun unique_scan :: "Infohash list \<Rightarrow> string \<Rightarrow> bool \<Rightarrow> bool" where
  "unique_scan [] uid unique = unique"
| "unique_scan (hash # rest) uid unique =
     unique_scan rest uid (if Hash hash = uid then False else unique)"

fun GenerateID :: "string option list \<Rightarrow> Infohash list \<Rightarrow> (error + string) option" where
  "GenerateID [] hashes = None"
| "GenerateID (None # uuids) hashes = Some (Inl UUIDPanic)"
| "GenerateID (Some uid # uuids) hashes =
     (if unique_scan hashes uid True then Some (Inr uid) else GenerateID uuids hashes)"

text \<open>The zero value of \<open>Node\<close>: what \<open>var n Node\<close> holds when the sender is already known.\<close>

definition zero_Node :: Node where
  "zero_Node = \<lparr>ID = [], Endpoint = [], ConnectionAddress = [], AssociatedHash = [],
                 Addr = ''<nil>'', MissedPing = 0, Disabled = False\<rparr>"

text \<open>
  The first half of \<open>Listen\<close>: a datagram from an address that no node has as its
  \<open>ConnectionAddress\<close> registers a node. The result is the local variable \<open>n\<close> and the state.
\<close>

definition register_peer ::
  "string option list \<Rightarrow> tracker \<Rightarrow> string \<Rightarrow> (error + Node \<times> tracker) option" where
  "register_peer uuids dht addr =
     (if IsNewPeer (NodeList dht) addr then
        (case GenerateID uuids (Hashes dht) of
           None \<Rightarrow> None
         | Some (Inl e) \<Rightarrow> Some (Inl e)
         | Some (Inr uid) \<Rightarrow>
             (let n = \<lparr>ID = uid, Endpoint = [], ConnectionAddress = addr, AssociatedHash = [],
                       Addr = addr, MissedPing = 0, Disabled = False\<rparr>
              in Some (Inr (n, dht\<lparr>NodeList := NodeList dht @ [n]\<rparr>))))
      else Some (Inr (zero_Node, dht)))"

subsection \<open>ResponseConn and the dispatch of Listen\<close>

text \<open>
  \<open>net.ResolveUDPAddr\<close> is a library call and a parameter of the model: \<open>resolve s\<close> is the
  address parsed from \<open>s\<close>, \<open>None\<close> where the call returns an error (and a nil pointer).
  \<open>ResponseConn\<close> drops the error of the first call and reads \<open>a1.IP\<close>, which panics on nil;
  it logs the error of the second call and prints the nil pointer.
\<close>

fun set_endpoint :: "Node list \<Rightarrow> string \<Rightarrow> string \<Rightarrow> Node list" where
  "set_endpoint [] addr e = []"
| "set_endpoint (node # rest) addr e =
     (if ConnectionAddress node = addr then node\<lparr>Endpoint := e\<rparr> else node)
       # set_endpoint rest addr e"

definition ResponseConn ::
  "(string \<Rightarrow> UDPAddr option) \<Rightarrow> tracker \<Rightarrow> DHTRequest \<Rightarrow> string \<Rightarrow> Node
     \<Rightarrow> error + DHTResponse \<times> tracker" where
  "ResponseConn resolve dht req addr n =
     (case resolve addr of
        None \<Rightarrow> Inl NilDereference
      | Some a1 \<Rightarrow>
          (let a = resolve (IP a1 @ '':'' @ reqPort req)
           in Inr (\<lparr>respCommand = reqCommand req, respId = ID n, respDest = ''0''\<rparr>,
                   dht\<lparr>NodeList := set_endpoint (NodeList dht) addr (UDPAddr_String a)\<rparr>)))"

definition ResponsePing :: "DHTRequest \<Rightarrow> string \<Rightarrow> DHTResponse" where
  "ResponsePing req addr = \<lparr>respCommand = reqCommand req, respId = ''0'', respDest = ''0''\<rparr>"

fun reset_missed :: "Node list \<Rightarrow> string \<Rightarrow> Node list" where
  "reset_missed [] addr = []"
| "reset_missed (node # rest) addr =
     (if Addr node = addr then node\<lparr>MissedPing := 0\<rparr> else node) # reset_missed rest addr"

text \<open>
  \<open>Listen\<close> for one datagram from \<open>addr\<close> that decodes to \<open>req\<close> (a datagram that does not
  decode leaves \<open>req\<close> at its zero value, whose command is empty). The commands \<open>regcp\<close>, \<open>cp\<close>
  and \<open>badcp\<close> work on the pool of control peers and dial out; they are the parameter
  \<open>control\<close>. The result is the response handed to \<open>Send\<close>, if any (\<open>Send\<close> happens only
  for a non-empty command), and the state.
\<close>

definition Listen ::
  "(string \<Rightarrow> UDPAddr option) \<Rightarrow> (tracker \<Rightarrow> DHTRequest \<Rightarrow> string \<Rightarrow> DHTResponse \<times> tracker)
     \<Rightarrow> string option list \<Rightarrow> tracker \<Rightarrow> string \<Rightarrow> DHTRequest
     \<Rightarrow> (error + DHTResponse option \<times> tracker) option" where
  "Listen resolve control uuids dht addr req =
     (case register_peer uuids dht addr of
        None \<Rightarrow> None
      | Some (Inl e) \<Rightarrow> Some (Inl e)
      | Some (Inr (n, dht1)) \<Rightarrow>
          (let r =
             (if reqCommand req = CMD_CONN then ResponseConn resolve dht1 req addr n
              else if reqCommand req = CMD_FIND then Inr (ResponseFind dht1 req addr)
              else if reqCommand req = CMD_PING then
                Inr (\<lparr>respCommand = [], respId = [], respDest = []\<rparr>,
                     dht1\<lparr>NodeList := reset_missed (NodeList dht1) addr\<rparr>)
              else if reqCommand req \<in> {''regcp'', ''cp'', ''badcp''} then
                Inr (control dht1 req addr)
              else Inr (\<lparr>respCommand = [], respId = [], respDest = []\<rparr>, dht1))
           in (case r of
                 Inl e \<Rightarrow> Some (Inl e)
               | Inr (resp, dht2) \<Rightarrow>
                   Some (Inr (if respCommand resp \<noteq> [] then Some resp else None, dht2)))))"

text \<open>
  The loop of \<open>main\<close> calls \<open>Listen\<close> for one datagram after the other; each datagram
  comes with the values the uuid generator returns while it is handled.
\<close>

fun serve ::
  "(string \<Rightarrow> UDPAddr option) \<Rightarrow> (tracker \<Rightarrow> DHTRequest \<Rightarrow> string \<Rightarrow> DHTResponse \<times> tracker)
     \<Rightarrow> (string option list \<times> string \<times> DHTRequest) list \<Rightarrow> tracker
     \<Rightarrow> (error + DHTResponse option list \<times> tracker) option" where
  "serve resolve control [] dht = Some (Inr ([], dht))"
| "serve resolve control ((uuids, addr, req) # rest) dht =
     (case Listen resolve control uuids dht addr req of
        None \<Rightarrow> None
      | Some (Inl e) \<Rightarrow> Some (Inl e)
      | Some (Inr (resp, dht1)) \<Rightarrow>
          (case serve resolve control rest dht1 of
             None \<Rightarrow> None
           | Some (Inl e) \<Rightarrow> Some (Inl e)
           | Some (Inr (resps, dht2)) \<Rightarrow> Some (Inr (resp # resps, dht2))))"

subsection \<open>The ping loop\<close>

text \<open>
  The head of an iteration of \<open>Ping\<close>: for each index \<open>i\<close> of \<open>removeKeys\<close>,
  \<open>NodeList = append(NodeList[:i], NodeList[i+1:]...)\<close>, then a log line that reads
  \<open>NodeList[i]\<close> in the list as it is after the removal. The slice expression panics when
  \<open>i + 1\<close> exceeds the length, the index expression when \<open>i\<close> is not below the new length.
\<close>

fun remove_nodes :: "nat list \<Rightarrow> Node list \<Rightarrow> error + Node list" where
  "remove_nodes [] nodes = Inr nodes"
| "remove_nodes (i # keys) nodes =
     (if length nodes < i + 1 then Inl SliceBounds
      else (let nodes1 = take i nodes @ drop (i + 1) nodes
            in if i < length nodes1 then remove_nodes keys nodes1 else Inl IndexOutOfRange))"

text \<open>
  The sweep after the sleep: every node's \<open>MissedPing\<close> goes up by one and a ping is sent to
  it; a node at 4 or more is disabled and its index appended to \<open>removeKeys\<close>. The result is
  the list, the indexes and the pings sent (destination and message).
\<close>

fun ping_scan :: "nat \<Rightarrow> Node list \<Rightarrow> Node list \<times> nat list \<times> (string \<times> DHTResponse) list" where
  "ping_scan i [] = ([], [], [])"
| "ping_scan i (node # rest) =
     (case ping_scan (i + 1) rest of
        (rest1, keys, sent) \<Rightarrow>
          (let node1 = node\<lparr>MissedPing := MissedPing node + 1\<rparr>;
               msg = (Addr node,
                      ResponsePing \<lparr>reqCommand = ''ping'', reqId = [], reqHash = [], reqPort = []\<rparr>
                        (ConnectionAddress node))
           in if 4 \<le> MissedPing node1
              then (node1\<lparr>Disabled := True\<rparr> # rest1, i # keys, msg # sent)
              else (node1 # rest1, keys, msg # sent)))"

text \<open>
  One iteration of the loop of \<open>Ping\<close>, in the order of the source: the removals for the
  indexes the iteration before collected, the sleep, the sweep, and the indexes sorted in
  descending order. The loop variable \<open>removeKeys\<close> is passed with the list.
\<close>

definition Ping_iteration :: "nat list \<times> Node list \<Rightarrow> error + nat list \<times> Node list" where
  "Ping_iteration s =
     (case remove_nodes (fst s) (snd s) of
        Inl e \<Rightarrow> Inl e
      | Inr nodes1 \<Rightarrow>
          (case ping_scan 0 nodes1 of
             (nodes2, keys, sent) \<Rightarrow> Inr (rev (sort keys), nodes2)))"

text \<open>The loop never leaves by itself; \<open>Ping_loop k\<close> is the state after \<open>k\<close> iterations.\<close>

fun Ping_loop :: "nat \<Rightarrow> nat list \<times> Node list \<Rightarrow> error + nat list \<times> Node list" where
  "Ping_loop 0 s = Inr s"
| "Ping_loop (Suc k) s =
     (case Ping_iteration s of Inl e \<Rightarrow> Inl e | Inr s1 \<Rightarrow> Ping_loop k s1)"

section \<open>The forwarder (Proxy.HandleMessage)\<close>

subsection \<open>Addresses behind pointers\<close>

text \<open>
  \<open>HandleMessage\<close> compares values of type \<open>*net.UDPAddr\<close> with \<open>==\<close>, which in Go compares
  the pointers, and elsewhere compares what \<open>String\<close> prints. The model therefore keeps the
  addresses in a store: a pointer is \<open>None\<close> (nil) or \<open>Some a\<close> with \<open>a\<close> an index into the
  list of allocated addresses, and an allocation appends to the list.
\<close>

type_synonym addr_ptr = "nat option"

definition deref :: "UDPAddr list \<Rightarrow> addr_ptr \<Rightarrow> UDPAddr option" where
  "deref h p = (case p of None \<Rightarrow> None | Some a \<Rightarrow> if a < length h then Some (h ! a) else None)"

definition ptr_String :: "UDPAddr list \<Rightarrow> addr_ptr \<Rightarrow> string" where
  "ptr_String h p = UDPAddr_String (deref h p)"

text \<open>
  \<open>net.ResolveUDPAddr\<close> returns a pointer to a newly allocated address, or nil with an error.
\<close>

definition ResolveUDPAddr ::
  "(string \<Rightarrow> UDPAddr option) \<Rightarrow> UDPAddr list \<Rightarrow> string \<Rightarrow> addr_ptr \<times> UDPAddr list" where
  "ResolveUDPAddr resolve h s =
     (case resolve s of None \<Rightarrow> (None, h) | Some a \<Rightarrow> (Some (length h), h @ [a]))"

subsection \<open>Data\<close>

record Tunnel =
  Peer1 :: addr_ptr
  Peer2 :: addr_ptr
  UniqueHash :: string

text \<open>
  \<open>udpcs.P2PMessage\<close> is declared outside the files at hand; the fields are the ones
  \<open>HandleMessage\<close> reads: \<open>Header.Type\<close>, \<open>Header.ProxyId\<close> and \<open>Data\<close>.
\<close>

record P2PMessage =
  HeaderType :: "16 word"
  HeaderProxyId :: "16 word"
  Data :: string

definition MT_PROXY :: "16 word" where "MT_PROXY = 7"

text \<open>What the forwarder sends: the reply of the PROXY branch, or a forwarded frame.\<close>

datatype sent =
    ProxyReply int string addr_ptr   \<comment> \<open>\<open>CreateProxyP2PMessage(responseId, data, 0)\<close> to the pointer\<close>
  | Forwarded P2PMessage addr_ptr

subsection \<open>HandleMessage\<close>

text \<open>
  The loop \<open>for id, tunnel := range p.Tunnels\<close>. Go visits the keys of a map in an order it
  does not specify; the order is the parameter \<open>order\<close>. The loop variable is
  \<open>responseId\<close>.
\<close>

fun tunnel_scan ::
  "16 word list \<Rightarrow> (16 word \<rightharpoonup> Tunnel) \<Rightarrow> addr_ptr \<Rightarrow> addr_ptr \<Rightarrow> int \<Rightarrow> int" where
  "tunnel_scan [] T src_addr targetIp responseId = responseId"
| "tunnel_scan (k # order) T src_addr targetIp responseId =
     (case T k of
        None \<Rightarrow> tunnel_scan order T src_addr targetIp responseId
      | Some tunnel \<Rightarrow>
          tunnel_scan order T src_addr targetIp
            (if Peer1 tunnel = src_addr then
               (if Peer2 tunnel = targetIp then uint k else responseId)
             else if Peer2 tunnel = src_addr then
               (if Peer1 tunnel = targetIp then uint k else responseId)
             else responseId))"

text \<open>
  The loop \<open>for i := 1; i < len(p.Tunnels)+2; i++\<close> over the values \<open>i\<close> it runs through:
  the first \<open>i\<close> whose key \<open>uint16(i)\<close> is not in the map.
\<close>

fun first_free :: "nat list \<Rightarrow> (16 word \<rightharpoonup> Tunnel) \<Rightarrow> nat option" where
  "first_free [] T = None"
| "first_free (i # rest) T = (if T (of_nat i) = None then Some i else first_free rest T)"

text \<open>
  \<open>HandleMessage\<close> for a datagram from \<open>src_addr\<close>. \<open>msg\<close> is the decoded frame, \<open>None\<close> when
  the listener passes an error or \<open>P2PMessageFromBytes\<close> fails. The result is the tunnel
  table, the store and the frames sent.
\<close>

definition HandleMessage ::
  "(string \<Rightarrow> UDPAddr option) \<Rightarrow> 16 word list \<Rightarrow> (16 word \<rightharpoonup> Tunnel) \<Rightarrow> UDPAddr list
     \<Rightarrow> addr_ptr \<Rightarrow> P2PMessage option \<Rightarrow> (16 word \<rightharpoonup> Tunnel) \<times> UDPAddr list \<times> sent list" where
  "HandleMessage resolve order T h src_addr msg =
     (case msg of
        None \<Rightarrow> (T, h, [])
      | Some m \<Rightarrow>
          if HeaderType m = MT_PROXY then
            (case ResolveUDPAddr resolve h (Data m) of
               (targetIp, h1) \<Rightarrow>
                 (let responseId = tunnel_scan order T src_addr targetIp (- 1)
                  in if responseId = - 1 then
                       (case ResolveUDPAddr resolve h1 (Data m) of
                          (peer2, h2) \<Rightarrow>
                            (let t = \<lparr>Peer1 = src_addr, Peer2 = peer2, UniqueHash = []\<rparr>
                             in case first_free [1 ..< card (dom T) + 2] T of
                                  None \<Rightarrow> (T, h2, [ProxyReply (- 1) (Data m) src_addr])
                                | Some i \<Rightarrow>
                                    (T(of_nat i \<mapsto> t), h2,
                                     [ProxyReply (int i) (Data m) src_addr])))
                     else (T, h1, [ProxyReply responseId (Data m) src_addr])))
          else
            (case T (HeaderProxyId m) of
               None \<Rightarrow> (T, h, [])
             | Some tunnel \<Rightarrow>
                 if ptr_String h (Peer1 tunnel) = ptr_String h src_addr
                 then (T, h, [Forwarded m (Peer2 tunnel)])
                 else if ptr_String h (Peer2 tunnel) = ptr_String h src_addr
                 then (T, h, [Forwarded m (Peer1 tunnel)])
                 else (T, h, [])))"

section \<open>The tracker client (DHTClient)\<close>

record DHTClient =
  dhtID :: string
  NetworkHash :: string
  LastCatch :: "string list"

text \<open>\<open>Compose\<close>, up to the bencoding of the request it builds.\<close>

definition Compose :: "string \<Rightarrow> string \<Rightarrow> string \<Rightarrow> DHTRequest" where
  "Compose command uid hash =
     \<lparr>reqCommand = command,
      reqId = (if uid \<noteq> [] then uid else ''0''),
      reqHash = (if hash \<noteq> [] then hash else ''0''),
      reqPort = []\<rparr>"

text \<open>\<open>UpdateLastCatch\<close>: every non-empty piece of \<open>catch\<close> not yet in the list is appended.\<close>

fun add_peers :: "string list \<Rightarrow> string list \<Rightarrow> string list" where
  "add_peers [] catch = catch"
| "add_peers (p # peers) catch =
     (if p = [] then add_peers peers catch
      else if p \<in> set catch then add_peers peers catch
      else add_peers peers (catch @ [p]))"

definition UpdateLastCatch :: "DHTClient \<Rightarrow> string \<Rightarrow> DHTClient" where
  "UpdateLastCatch dht catch = dht\<lparr>LastCatch := add_peers (split_comma catch []) (LastCatch dht)\<rparr>"

text \<open>
  One turn of the loop of \<open>ListenDHT\<close> for a datagram that decodes to \<open>data\<close>: the client
  and the requests it writes to the tracker.
\<close>

definition ListenDHT :: "DHTClient \<Rightarrow> DHTResponse \<Rightarrow> DHTClient \<times> DHTRequest list" where
  "ListenDHT dht data =
     (if respCommand data = CMD_CONN then
        (dht\<lparr>dhtID := respId data\<rparr>, [Compose CMD_FIND [] (NetworkHash dht)])
      else if respCommand data = CMD_PING then (dht, [Compose CMD_PING [] []])
      else if respCommand data = CMD_FIND then
        (if respDest data \<noteq> [] then (UpdateLastCatch dht (respDest data), []) else (dht, []))
      else (dht, []))"

section \<open>The peer and its driver (NetworkPeer)\<close>

subsection \<open>Data\<close>

text \<open>
  \<open>PeerState\<close> is an integer type whose constants are declared outside the files at hand;
  the constructors are the constants the driver names, and \<open>PeerStateOther\<close> stands for
  every other value of the integer type.
\<close>

datatype PeerState =
    PeerStateInit
  | PeerStateRequestedIP
  | PeerStateRequestingProxy
  | PeerStateWaitingForProxy
  | PeerStateWaitingToConnect
  | PeerStateConnecting
  | PeerStateRouting
  | PeerStateConnected
  | PeerStateDisconnect
  | PeerStateStop
  | PeerStateConnectingDirectlyWait
  | PeerStateConnectingDirectly
  | PeerStateConnectingInternetWait
  | PeerStateConnectingInternet
  | PeerStateHandshaking
  | PeerStateHandshakingFailed
  | PeerStateWaitingForwarder
  | PeerStateHandshakingForwarder
  | PeerStateOther int

text \<open>
  \<open>PeerEndpoint\<close> and the fields of \<open>NetworkPeer\<close> that the modelled methods touch. A
  \<open>*net.UDPAddr\<close> is \<open>None\<close> for nil (the driver never compares these pointers); times are
  nanoseconds. \<open>PeerLocalIP\<close> and \<open>PeerHW\<close> are \<open>None\<close> for nil and otherwise hold what
  \<open>String\<close> prints. The fields \<open>ID\<close>, \<open>Endpoint\<close> and \<open>Addr\<close> carry a prefix, the tracker's
  \<open>Node\<close> having fields of the same names.
\<close>

record PeerEndpoint =
  epAddr :: "UDPAddr option"
  LastContact :: int

record NetworkPeer =
  npID :: string
  ProxyID :: "16 word"
  npEndpoint :: "UDPAddr option"
  KnownIPs :: "UDPAddr option list"
  Proxies :: "UDPAddr option list"
  PeerLocalIP :: "string option"
  PeerHW :: "string option"
  State :: PeerState
  RemoteState :: PeerState
  ConnectionAttempts :: "8 word"
  Running :: bool
  Endpoints :: "PeerEndpoint list"

text \<open>The calls a handler makes on the tracker client.\<close>

datatype dht_call =
    SendNode string
  | SendState string PeerState
  | SendRequestProxy string

text \<open>\<open>SetState\<close>: the state is stored and reported (\<open>strconv.Itoa\<close> is never empty).\<close>

definition SetState :: "NetworkPeer \<Rightarrow> PeerState \<Rightarrow> NetworkPeer \<times> dht_call list" where
  "SetState np state = (np\<lparr>State := state\<rparr>, [SendState (npID np) state])"

subsection \<open>stateRequestedIP\<close>

text \<open>
  The loop of \<open>stateRequestedIP\<close> reads the clock, the result of \<open>sendNode\<close> and the field
  \<open>KnownIPs\<close>, which the receiving task writes. One record holds what one turn of the loop
  observes: the clock read by \<open>time.Since\<close>, the clock read by \<open>time.Now\<close> if the request
  is sent again, whether \<open>sendNode\<close> then fails, and \<open>KnownIPs\<close> as the turn finds it.
\<close>

record ip_obs =
  clock_since :: int
  clock_now :: int
  sendNode_err :: bool
  seen_KnownIPs :: "UDPAddr option list"

text \<open>
  The loop, with its variables \<open>requestSentAt\<close> and \<open>attempts\<close> and the calls made so far.
  The result is the peer, the calls and whether the handler returns an error; \<open>None\<close> when
  the observations end with the loop still going.
\<close>

fun requestedIP_loop ::
  "ip_obs list \<Rightarrow> NetworkPeer \<Rightarrow> int \<Rightarrow> nat \<Rightarrow> dht_call list
     \<Rightarrow> (NetworkPeer \<times> dht_call list \<times> bool) option" where
  "requestedIP_loop [] np requestSentAt attempts calls = None"
| "requestedIP_loop (ob # obs) np requestSentAt attempts calls =
     (let np1 = np\<lparr>KnownIPs := seen_KnownIPs ob\<rparr>;
          again = (1000 * 1000000 < clock_since ob - requestSentAt)
      in if again \<and> sendNode_err ob then
           Some (fst (SetState np1 PeerStateDisconnect),
                 calls @ snd (SetState np1 PeerStateDisconnect), True)
         else
           (let requestSentAt1 = (if again then clock_now ob else requestSentAt);
                attempts1 = (if again then attempts + 1 else attempts);
                calls1 = (if again then calls @ [SendNode (npID np)] else calls)
            in if 5 < attempts1 then
                 Some (fst (SetState np1 PeerStateDisconnect),
                       calls1 @ snd (SetState np1 PeerStateDisconnect), False)
               else if 0 < length (KnownIPs np1) then
                 Some (fst (SetState np1 PeerStateRequestingProxy),
                       calls1 @ snd (SetState np1 PeerStateRequestingProxy), False)
               else requestedIP_loop obs np1 requestSentAt1 attempts1 calls1))"

text \<open>\<open>start\<close> is the clock read by \<open>time.Now\<close> on entry.\<close>

definition stateRequestedIP ::
  "ip_obs list \<Rightarrow> int \<Rightarrow> NetworkPeer \<Rightarrow> (NetworkPeer \<times> dht_call list \<times> bool) option" where
  "stateRequestedIP obs start np = requestedIP_loop obs np start 0 []"

subsection \<open>stateConnecting\<close>

text \<open>
  What the task started by \<open>stateConnecting\<close> does: frames sent and pauses in milliseconds.
  \<open>CreateMessage\<close> and \<open>SendMessage\<close> can fail; whether they do is a parameter.
\<close>

datatype sender_event =
    IntroReq string "UDPAddr option"
  | Pause nat

fun intro_round ::
  "(string \<Rightarrow> bool) \<Rightarrow> (UDPAddr option \<Rightarrow> bool) \<Rightarrow> string \<Rightarrow> UDPAddr option list
     \<Rightarrow> sender_event list" where
  "intro_round create_ok send_ok dht_id [] = []"
| "intro_round create_ok send_ok dht_id (ep # eps) =
     (let payload = dht_id @ UDPAddr_String ep
      in if \<not> create_ok payload then intro_round create_ok send_ok dht_id eps
         else if \<not> send_ok ep then intro_round create_ok send_ok dht_id eps
         else IntroReq payload ep # Pause 5 # intro_round create_ok send_ok dht_id eps)"

text \<open>
  The loop \<open>for round < 10\<close> of the task, with the events so far. The body of the loop does
  not assign \<open>round\<close>. The first argument bounds the number of turns; the result holds the
  events and whether the loop was left within the bound.
\<close>

fun intro_sender ::
  "nat \<Rightarrow> (string \<Rightarrow> bool) \<Rightarrow> (UDPAddr option \<Rightarrow> bool) \<Rightarrow> string \<Rightarrow> UDPAddr option list
     \<Rightarrow> int \<Rightarrow> sender_event list \<Rightarrow> sender_event list \<times> bool" where
  "intro_sender 0 create_ok send_ok dht_id ips round evs = (evs, False)"
| "intro_sender (Suc fuel) create_ok send_ok dht_id ips round evs =
     (if round < 10 then
        intro_sender fuel create_ok send_ok dht_id ips round
          (evs @ intro_round create_ok send_ok dht_id ips @ [Pause 20])
      else (evs, True))"

text \<open>The handler itself starts the task (with \<open>round = 0\<close>) and sets the state.\<close>

definition stateConnecting :: "NetworkPeer \<Rightarrow> NetworkPeer \<times> dht_call list" where
  "stateConnecting np = SetState np PeerStateRouting"

subsection \<open>stateRouting\<close>

fun is_proxy :: "UDPAddr option list \<Rightarrow> UDPAddr option \<Rightarrow> bool" where
  "is_proxy [] a = False"
| "is_proxy (proxy # rest) a =
     (if UDPAddr_String proxy = UDPAddr_String a then True else is_proxy rest a)"

text \<open>
  The loop over \<open>np.Endpoints\<close>. \<open>clock i\<close> is the clock that \<open>time.Since\<close> reads in turn \<open>i\<close>;
  \<open>isPrivateIP\<close> is declared outside the files at hand and is a parameter, \<open>None\<close> for an
  error. Reading \<open>ep.Addr.IP\<close> through a nil \<open>Addr\<close> panics.
\<close>

fun routing_scan ::
  "(string \<Rightarrow> bool option) \<Rightarrow> UDPAddr option list \<Rightarrow> (nat \<Rightarrow> int) \<Rightarrow> nat \<Rightarrow> PeerEndpoint list
     \<Rightarrow> PeerEndpoint list \<Rightarrow> PeerEndpoint list \<Rightarrow> PeerEndpoint list
     \<Rightarrow> error + PeerEndpoint list \<times> PeerEndpoint list \<times> PeerEndpoint list" where
  "routing_scan isPrivateIP prx clock i [] locals internet proxies =
     Inr (locals, internet, proxies)"
| "routing_scan isPrivateIP prx clock i (ep # eps) locals internet proxies =
     (if 10 * 1000000 < clock i - LastContact ep then
        routing_scan isPrivateIP prx clock (i + 1) eps locals internet proxies
      else if is_proxy prx (epAddr ep) then
        routing_scan isPrivateIP prx clock (i + 1) eps locals internet (proxies @ [ep])
      else
        (case epAddr ep of
           None \<Rightarrow> Inl NilDereference
         | Some a \<Rightarrow>
             (case isPrivateIP (IP a) of
                None \<Rightarrow> routing_scan isPrivateIP prx clock (i + 1) eps locals internet proxies
              | Some rc \<Rightarrow>
                  if rc
                  then routing_scan isPrivateIP prx clock (i + 1) eps (locals @ [ep]) internet proxies
                  else routing_scan isPrivateIP prx clock (i + 1) eps locals (internet @ [ep]) proxies)))"

definition stateRouting ::
  "(string \<Rightarrow> bool option) \<Rightarrow> (nat \<Rightarrow> int) \<Rightarrow> NetworkPeer \<Rightarrow> error + NetworkPeer \<times> dht_call list" where
  "stateRouting isPrivateIP clock np =
     (case routing_scan isPrivateIP (Proxies np) clock 0 (Endpoints np) [] [] [] of
        Inl e \<Rightarrow> Inl e
      | Inr (locals, internet, proxies) \<Rightarrow>
          (case locals @ internet @ proxies of
             [] \<Rightarrow> Inr (SetState (np\<lparr>Endpoints := []\<rparr>) PeerStateDisconnect)
           | ep # eps \<Rightarrow>
               Inr (SetState (np\<lparr>Endpoints := ep # eps, npEndpoint := epAddr ep\<rparr>)
                      PeerStateConnected)))"

subsection \<open>Run\<close>

text \<open>The methods that \<open>Run\<close> enters into \<open>np.stateHandlers\<close>, by name.\<close>

datatype StateHandlerCallback =
    CB_stateInit
  | CB_stateRequestedIP
  | CB_stateConnecting
  | CB_stateConnectingDirectlyWait
  | CB_stateConnectingDirectly
  | CB_stateConnectingInternetWait
  | CB_stateConnectingInternet
  | CB_stateConnected
  | CB_stateHandshaking
  | CB_stateWaitingForwarder
  | CB_stateHandshakingForwarder
  | CB_stateHandshakingFailed
  | CB_stateDisconnect
  | CB_stateStop
  | CB_stateRequestingProxy
  | CB_stateWaitingForProxy
  | CB_stateWaitingToConnect
  | CB_stateRouting

fun stateHandlers :: "PeerState \<Rightarrow> StateHandlerCallback option" where
  "stateHandlers PeerStateInit = Some CB_stateInit"
| "stateHandlers PeerStateRequestedIP = Some CB_stateRequestedIP"
| "stateHandlers PeerStateConnecting = Some CB_stateConnecting"
| "stateHandlers PeerStateConnectingDirectlyWait = Some CB_stateConnectingDirectlyWait"
| "stateHandlers PeerStateConnectingDirectly = Some CB_stateConnectingDirectly"
| "stateHandlers PeerStateConnectingInternetWait = Some CB_stateConnectingInternetWait"
| "stateHandlers PeerStateConnectingInternet = Some CB_stateConnectingInternet"
| "stateHandlers PeerStateConnected = Some CB_stateConnected"
| "stateHandlers PeerStateHandshaking = Some CB_stateHandshaking"
| "stateHandlers PeerStateWaitingForwarder = Some CB_stateWaitingForwarder"
| "stateHandlers PeerStateHandshakingForwarder = Some CB_stateHandshakingForwarder"
| "stateHandlers PeerStateHandshakingFailed = Some CB_stateHandshakingFailed"
| "stateHandlers PeerStateDisconnect = Some CB_stateDisconnect"
| "stateHandlers PeerStateStop = Some CB_stateStop"
| "stateHandlers PeerStateRequestingProxy = Some CB_stateRequestingProxy"
| "stateHandlers PeerStateWaitingForProxy = Some CB_stateWaitingForProxy"
| "stateHandlers PeerStateWaitingToConnect = Some CB_stateWaitingToConnect"
| "stateHandlers PeerStateRouting = Some CB_stateRouting"
| "stateHandlers (PeerStateOther v) = None"

text \<open>
  The loop of \<open>Run\<close>. A turn of the loop observes \<open>ptpc.Dht.ID\<close> and the peer as the other
  tasks have left it since the turn before: an observation is the id and the function the
  other tasks applied to the peer. What a handler does to the peer is the parameter
  \<open>call\<close>. The result tells whether the loop was left, and holds the peer and the handlers
  that were called, in order; the loop is still going when the observations end.
\<close>

fun Run_loop ::
  "(StateHandlerCallback \<Rightarrow> NetworkPeer \<Rightarrow> NetworkPeer)
     \<Rightarrow> (string \<times> (NetworkPeer \<Rightarrow> NetworkPeer)) list \<Rightarrow> NetworkPeer
     \<Rightarrow> StateHandlerCallback list \<Rightarrow> bool \<times> NetworkPeer \<times> StateHandlerCallback list" where
  "Run_loop call [] np called = (False, np, called)"
| "Run_loop call ((dht_id, others) # obs) np called =
     (let np1 = others np
      in if State np1 = PeerStateStop then (True, np1, called)
         else if dht_id = [] then Run_loop call obs np1 called
         else (case stateHandlers (State np1) of
                 None \<Rightarrow> Run_loop call obs np1 called
               | Some callback \<Rightarrow> Run_loop call obs (call callback np1) (called @ [callback])))"

definition Run ::
  "(StateHandlerCallback \<Rightarrow> NetworkPeer \<Rightarrow> NetworkPeer)
     \<Rightarrow> (string \<times> (NetworkPeer \<Rightarrow> NetworkPeer)) list \<Rightarrow> NetworkPeer
     \<Rightarrow> bool \<times> NetworkPeer \<times> StateHandlerCallback list" where
  "Run call obs np = Run_loop call obs (np\<lparr>Running := True, ConnectionAttempts := 0\<rparr>) []"

section \<open>The peer table (PeerList)\<close>

datatype ListOperation = PeersDelete | PeersUpdate

type_synonym peer_ptr = "nat option"

definition peer_at :: "NetworkPeer list \<Rightarrow> peer_ptr \<Rightarrow> NetworkPeer option" where
  "peer_at h p = (case p of None \<Rightarrow> None | Some a \<Rightarrow> if a < length h then Some (h ! a) else None)"

record PeerList =
  peers :: "string \<rightharpoonup> peer_ptr"
  tableIPID :: "string \<rightharpoonup> string"
  tableMacID :: "string \<rightharpoonup> string"

text \<open>\<open>net.IP.String\<close> and \<open>net.HardwareAddr.String\<close> on a field that may be nil.\<close>

definition IP_String :: "string option \<Rightarrow> string" where
  "IP_String ip = (case ip of None \<Rightarrow> ''<nil>'' | Some s \<Rightarrow> s)"

definition HW_String :: "string option \<Rightarrow> string" where
  "HW_String mac = (case mac of None \<Rightarrow> [] | Some s \<Rightarrow> s)"

definition updateTables :: "PeerList \<Rightarrow> string \<Rightarrow> string \<Rightarrow> string \<Rightarrow> PeerList" where
  "updateTables l uid ip mac =
     (let l1 = (if ip \<noteq> [] then l\<lparr>tableIPID := (tableIPID l)(ip \<mapsto> uid)\<rparr> else l)
      in if mac \<noteq> [] then l1\<lparr>tableMacID := (tableMacID l1)(mac \<mapsto> uid)\<rparr> else l1)"

definition deleteTables :: "PeerList \<Rightarrow> string \<Rightarrow> string \<Rightarrow> PeerList" where
  "deleteTables l ip mac =
     (let l1 = (if ip \<noteq> [] then l\<lparr>tableIPID := (tableIPID l)(ip := None)\<rparr> else l)
      in if mac \<noteq> [] then l1\<lparr>tableMacID := (tableMacID l1)(mac := None)\<rparr> else l1)"

text \<open>
  \<open>operate\<close>. The table holds pointers to peers, and the driver of a peer changes its
  fields in place; the peers are therefore kept in a store \<open>h\<close>, and a pointer is \<open>None\<close>
  (nil) or \<open>Some a\<close> with \<open>a\<close> an index into the store. \<open>operate\<close> reads the store and
  does not write it. The update branch stores the pointer and then reads the peer's fields
  through it; the delete branch reads the fields of the peer as they are in the store at
  that time. Reading through nil panics.
\<close>

definition operate ::
  "PeerList \<Rightarrow> NetworkPeer list \<Rightarrow> ListOperation \<Rightarrow> string \<Rightarrow> peer_ptr \<Rightarrow> error + PeerList" where
  "operate l h action uid peer =
     (case action of
        PeersUpdate \<Rightarrow>
          (case peer_at h peer of
             None \<Rightarrow> Inl NilDereference
           | Some p \<Rightarrow>
               (let l1 = l\<lparr>peers := (peers l)(uid \<mapsto> peer)\<rparr>;
                    ip = (if PeerLocalIP p \<noteq> None then IP_String (PeerLocalIP p) else []);
                    mac = (if PeerHW p \<noteq> None then HW_String (PeerHW p) else [])
                in Inr (updateTables l1 uid ip mac)))
      | PeersDelete \<Rightarrow>
          (case peers l uid of
             None \<Rightarrow> Inr l
           | Some ptr \<Rightarrow>
               (case peer_at h ptr of
                  None \<Rightarrow> Inl NilDereference
                | Some p \<Rightarrow>
                    (let l1 = deleteTables l (IP_String (PeerLocalIP p)) (HW_String (PeerHW p))
                     in Inr (l1\<lparr>peers := (peers l1)(uid := None)\<rparr>)))))"

definition Delete :: "PeerList \<Rightarrow> NetworkPeer list \<Rightarrow> string \<Rightarrow> error + PeerList" where
  "Delete l h uid = operate l h PeersDelete uid None"

definition Update :: "PeerList \<Rightarrow> NetworkPeer list \<Rightarrow> string \<Rightarrow> peer_ptr \<Rightarrow> error + PeerList" where
  "Update l h uid peer = operate l h PeersUpdate uid peer"

definition Init :: PeerList where
  "Init = \<lparr>peers = Map.empty, tableIPID = Map.empty, tableMacID = Map.empty\<rparr>"

text \<open>\<open>GetPeer\<close> returns the stored pointer, nil for an id that is not in the table.\<close>

definition GetPeer :: "PeerList \<Rightarrow> string \<Rightarrow> peer_ptr" where
  "GetPeer l uid = (case peers l uid of None \<Rightarrow> None | Some ptr \<Rightarrow> ptr)"

definition GetID :: "PeerList \<Rightarrow> string \<Rightarrow> string option" where
  "GetID l ip = tableIPID l ip"

text \<open>
  \<open>GetEndpointAndProxy\<close>: \<open>Inr None\<close> is the returned error for a MAC that is not in the
  table. For a MAC that is in the table the method reads \<open>l.peers[id].Endpoint\<close> with no
  check that the id is in \<open>peers\<close>: an id that is not yields the nil pointer, and the read
  panics.
\<close>

definition GetEndpointAndProxy ::
  "PeerList \<Rightarrow> NetworkPeer list \<Rightarrow> string \<Rightarrow> error + (UDPAddr option \<times> 16 word) option" where
  "GetEndpointAndProxy l h mac =
     (case tableMacID l mac of
        None \<Rightarrow> Inr None
      | Some uid \<Rightarrow>
          (case peers l uid of
             None \<Rightarrow> Inl NilDereference
           | Some ptr \<Rightarrow>
               (case peer_at h ptr of
                  None \<Rightarrow> Inl NilDereference
                | Some p \<Rightarrow> Inr (Some (npEndpoint p, ProxyID p)))))"

section \<open>Notions of the specification\<close>

text \<open>
  The ranking of endpoints in the words of the specification, to be compared with the loop
  of \<open>stateRouting\<close>: an entry counts when it was touched within 10 ms of the clock read
  for it; the forwarder bucket holds the entries whose address is one of the peer's
  proxies, the LAN bucket the others with a private IP, the WAN bucket the others with a
  public IP. The entries are numbered from \<open>i\<close>, the number of the turn that reads them.
\<close>

definition recently_touched :: "(nat \<Rightarrow> int) \<Rightarrow> nat \<times> PeerEndpoint \<Rightarrow> bool" where
  "recently_touched clock p = (clock (fst p) - LastContact (snd p) \<le> 10 * 1000000)"

definition private_ip :: "(string \<Rightarrow> bool option) \<Rightarrow> PeerEndpoint \<Rightarrow> bool option" where
  "private_ip isPrivateIP ep = (case epAddr ep of None \<Rightarrow> None | Some a \<Rightarrow> isPrivateIP (IP a))"

definition spec_proxies ::
  "UDPAddr option list \<Rightarrow> (nat \<Rightarrow> int) \<Rightarrow> nat \<Rightarrow> PeerEndpoint list \<Rightarrow> PeerEndpoint list" where
  "spec_proxies prx clock i eps =
     map snd (filter (\<lambda>p. recently_touched clock p \<and> is_proxy prx (epAddr (snd p)))
                (enumerate i eps))"

definition spec_locals ::
  "(string \<Rightarrow> bool option) \<Rightarrow> UDPAddr option list \<Rightarrow> (nat \<Rightarrow> int) \<Rightarrow> nat \<Rightarrow> PeerEndpoint list
     \<Rightarrow> PeerEndpoint list" where
  "spec_locals isPrivateIP prx clock i eps =
     map snd (filter (\<lambda>p. recently_touched clock p \<and> \<not> is_proxy prx (epAddr (snd p))
                           \<and> private_ip isPrivateIP (snd p) = Some True)
                (enumerate i eps))"

definition spec_internet ::
  "(string \<Rightarrow> bool option) \<Rightarrow> UDPAddr option list \<Rightarrow> (nat \<Rightarrow> int) \<Rightarrow> nat \<Rightarrow> PeerEndpoint list
     \<Rightarrow> PeerEndpoint list" where
  "spec_internet isPrivateIP prx clock i eps =
     map snd (filter (\<lambda>p. recently_touched clock p \<and> \<not> is_proxy prx (epAddr (snd p))
                           \<and> private_ip isPrivateIP (snd p) = Some False)
                (enumerate i eps))"

text \<open>The overlay IP and MAC of a peer as \<open>operate\<close> computes them: empty for a nil field.\<close>

definition overlay_ip :: "NetworkPeer \<Rightarrow> string" where
  "overlay_ip p = (if PeerLocalIP p \<noteq> None then IP_String (PeerLocalIP p) else [])"

definition overlay_mac :: "NetworkPeer \<Rightarrow> string" where
  "overlay_mac p = (if PeerHW p \<noteq> None then HW_String (PeerHW p) else [])"

text \<open>
  The number of \<open>node\<close> requests among the calls of a handler, and a clock under which the
  loop of \<open>stateRequestedIP\<close> runs: a turn reads the clock at least 100 ms (the sleep)
  after the turn before, and \<open>time.Now\<close> does not read less than \<open>time.Since\<close> did just
  before it. The first turn follows the entry with no sleep.
\<close>

fun node_requests :: "dht_call list \<Rightarrow> nat" where
  "node_requests [] = 0"
| "node_requests (SendNode uid # calls) = Suc (node_requests calls)"
| "node_requests (c # calls) = node_requests calls"

fun sleeps :: "int \<Rightarrow> ip_obs list \<Rightarrow> bool" where
  "sleeps t [] = True"
| "sleeps t (ob # obs) =
     (t + 100 * 1000000 \<le> clock_since ob \<and> clock_since ob \<le> clock_now ob \<and> sleeps (clock_now ob) obs)"

definition clock_runs :: "int \<Rightarrow> ip_obs list \<Rightarrow> bool" where
  "clock_runs start obs = sleeps (start - 100 * 1000000) obs"

section \<open>Concrete states\<close>

text \<open>
  Three nodes registered under the fingerprint \<open>net-X\<close>. The first two reach the tracker
  from one IP address (two source ports of one NAT) and both declare port 4000, so
  \<open>ResponseConn\<close> gave both the declared endpoint \<open>198.51.100.7:4000\<close>.
\<close>

definition nat_nodes :: "Node list" where
  "nat_nodes =
     [\<lparr>ID = ''id-a'', Endpoint = ''198.51.100.7:4000'',
       ConnectionAddress = ''198.51.100.7:1000'', AssociatedHash = ''net-X'',
       Addr = ''198.51.100.7:1000'', MissedPing = 0, Disabled = False\<rparr>,
      \<lparr>ID = ''id-b'', Endpoint = ''198.51.100.7:4000'',
       ConnectionAddress = ''198.51.100.7:2000'', AssociatedHash = ''net-X'',
       Addr = ''198.51.100.7:2000'', MissedPing = 0, Disabled = False\<rparr>,
      \<lparr>ID = ''id-c'', Endpoint = ''203.0.113.5:5000'',
       ConnectionAddress = ''203.0.113.5:3000'', AssociatedHash = ''net-X'',
       Addr = ''203.0.113.5:3000'', MissedPing = 0, Disabled = False\<rparr>]"

definition find_net_X :: DHTRequest where
  "find_net_X = \<lparr>reqCommand = ''find'', reqId = ''0'', reqHash = ''net-X'', reqPort = []\<rparr>"

text \<open>
  The forwarder with two peers: \<open>addr_A\<close> sends the PROXY frame \<open>proxy_frame\<close>, whose payload
  names \<open>addr_C\<close>. \<open>fw_tunnels\<close> is the table after the first such frame, received with the
  source address at pointer 0.
\<close>

definition addr_A :: UDPAddr where
  "addr_A = \<lparr>IP = ''198.51.100.7'', Port = ''1000''\<rparr>"

definition addr_C :: UDPAddr where
  "addr_C = \<lparr>IP = ''203.0.113.5'', Port = ''3000''\<rparr>"

definition resolve_AC :: "string \<Rightarrow> UDPAddr option" where
  "resolve_AC = map_of [(''198.51.100.7:1000'', addr_A), (''203.0.113.5:3000'', addr_C),
                        (''198.51.100.7:4000'', \<lparr>IP = ''198.51.100.7'', Port = ''4000''\<rparr>)]"

definition proxy_frame :: P2PMessage where
  "proxy_frame = \<lparr>HeaderType = 7, HeaderProxyId = 0, Data = ''203.0.113.5:3000''\<rparr>"

definition fw_tunnels :: "16 word \<rightharpoonup> Tunnel" where
  "fw_tunnels = [1 \<mapsto> \<lparr>Peer1 = Some 0, Peer2 = Some 2, UniqueHash = []\<rparr>]"

text \<open>A node that never answers a ping, alone in the list.\<close>

definition silent_node :: Node where
  "silent_node =
     \<lparr>ID = ''id-a'', Endpoint = ''198.51.100.7:4000'',
      ConnectionAddress = ''198.51.100.7:1000'', AssociatedHash = ''net-X'',
      Addr = ''198.51.100.7:1000'', MissedPing = 0, Disabled = False\<rparr>"

text \<open>A node that registered two cycles after \<open>silent_node\<close>.\<close>

definition late_node :: Node where
  "late_node =
     \<lparr>ID = ''id-c'', Endpoint = ''203.0.113.5:5000'',
      ConnectionAddress = ''203.0.113.5:3000'', AssociatedHash = ''net-X'',
      Addr = ''203.0.113.5:3000'', MissedPing = 0, Disabled = False\<rparr>"

text \<open>A \<open>conn\<close> request that declares port 4000, and a stand-in for the control-peer commands.\<close>

definition conn_4000 :: DHTRequest where
  "conn_4000 = \<lparr>reqCommand = ''conn'', reqId = ''0'', reqHash = ''0'', reqPort = ''4000''\<rparr>"

definition no_control :: "tracker \<Rightarrow> DHTRequest \<Rightarrow> string \<Rightarrow> DHTResponse \<times> tracker" where
  "no_control dht req addr = (\<lparr>respCommand = [], respId = [], respDest = []\<rparr>, dht)"

text \<open>
  The six datagrams that lead an empty tracker to \<open>nat_nodes\<close>: each of the three clients
  sends \<open>conn\<close> and then \<open>find\<close> for \<open>net-X\<close>.
\<close>

definition resolve_nat :: "string \<Rightarrow> UDPAddr option" where
  "resolve_nat = map_of
     [(''198.51.100.7:1000'', \<lparr>IP = ''198.51.100.7'', Port = ''1000''\<rparr>),
      (''198.51.100.7:2000'', \<lparr>IP = ''198.51.100.7'', Port = ''2000''\<rparr>),
      (''198.51.100.7:4000'', \<lparr>IP = ''198.51.100.7'', Port = ''4000''\<rparr>),
      (''203.0.113.5:3000'', \<lparr>IP = ''203.0.113.5'', Port = ''3000''\<rparr>),
      (''203.0.113.5:5000'', \<lparr>IP = ''203.0.113.5'', Port = ''5000''\<rparr>)]"

definition nat_datagrams :: "(string option list \<times> string \<times> DHTRequest) list" where
  "nat_datagrams =
     [([Some ''id-a''], ''198.51.100.7:1000'', conn_4000),
      ([], ''198.51.100.7:1000'', find_net_X),
      ([Some ''id-b''], ''198.51.100.7:2000'', conn_4000),
      ([], ''198.51.100.7:2000'', find_net_X),
      ([Some ''id-c''], ''203.0.113.5:3000'', conn_4000\<lparr>reqPort := ''5000''\<rparr>),
      ([], ''203.0.113.5:3000'', find_net_X)]"

definition node_A_fresh :: Node where
  "node_A_fresh =
     \<lparr>ID = ''id-a'', Endpoint = ''198.51.100.7:4000'',
      ConnectionAddress = ''198.51.100.7:1000'', AssociatedHash = [],
      Addr = ''198.51.100.7:1000'', MissedPing = 0, Disabled = False\<rparr>"

text \<open>
  A peer in state \<open>Init\<close> and four turns of \<open>Run\<close> during which the client has no id; before
  the third turn another task sets the state to \<open>Stop\<close>. \<open>connect_at_once\<close> is a handler that
  would set the state to \<open>Connected\<close>.
\<close>

definition peer_init :: NetworkPeer where
  "peer_init = \<lparr>npID = ''id-b'', ProxyID = 0, npEndpoint = None, KnownIPs = [], Proxies = [],
      PeerLocalIP = None, PeerHW = None, State = PeerStateInit, RemoteState = PeerStateInit,
      ConnectionAttempts = 0, Running = False, Endpoints = []\<rparr>"

definition stop_peer :: "NetworkPeer \<Rightarrow> NetworkPeer" where
  "stop_peer np = np\<lparr>State := PeerStateStop\<rparr>"

definition no_id_obs :: "(string \<times> (NetworkPeer \<Rightarrow> NetworkPeer)) list" where
  "no_id_obs = [([], \<lambda>np. np), ([], \<lambda>np. np), ([], stop_peer), ([], \<lambda>np. np)]"

definition connect_at_once :: "StateHandlerCallback \<Rightarrow> NetworkPeer \<Rightarrow> NetworkPeer" where
  "connect_at_once callback np = np\<lparr>State := PeerStateConnected\<rparr>"

text \<open>
  A peer in state \<open>Routing\<close> with four endpoints: one not touched for 20 ms, the peer's
  forwarder, a public address and a private address, read at 1, 2, 3 and 4 ms.
\<close>

definition ep_private :: PeerEndpoint where
  "ep_private = \<lparr>epAddr = Some \<lparr>IP = ''192.168.1.5'', Port = ''4000''\<rparr>, LastContact = 0\<rparr>"

definition ep_public :: PeerEndpoint where
  "ep_public = \<lparr>epAddr = Some \<lparr>IP = ''203.0.113.5'', Port = ''4000''\<rparr>, LastContact = 0\<rparr>"

definition ep_proxy :: PeerEndpoint where
  "ep_proxy = \<lparr>epAddr = Some \<lparr>IP = ''198.51.100.9'', Port = ''7000''\<rparr>, LastContact = 0\<rparr>"

definition ep_stale :: PeerEndpoint where
  "ep_stale = \<lparr>epAddr = Some \<lparr>IP = ''192.168.1.9'', Port = ''4000''\<rparr>, LastContact = - 20000000\<rparr>"

definition private_example :: "string \<Rightarrow> bool option" where
  "private_example = map_of [(''192.168.1.5'', True), (''192.168.1.9'', True),
                             (''203.0.113.5'', False), (''198.51.100.9'', False)]"

definition clock_ms :: "nat \<Rightarrow> int" where
  "clock_ms i = 1000000 * (int i + 1)"

definition peer_routing :: NetworkPeer where
  "peer_routing =
     \<lparr>npID = ''id-b'', ProxyID = 0, npEndpoint = None, KnownIPs = [],
      Proxies = [Some \<lparr>IP = ''198.51.100.9'', Port = ''7000''\<rparr>],
      PeerLocalIP = None, PeerHW = None, State = PeerStateRouting,
      RemoteState = PeerStateRouting, ConnectionAttempts = 1, Running = True,
      Endpoints = [ep_stale, ep_proxy, ep_public, ep_private]\<rparr>"

text \<open>
  A peer with overlay IP \<open>10.0.0.1\<close> and a MAC ending in \<open>01\<close>, the same peer after its IP
  and MAC have changed in place to \<open>10.0.0.2\<close> and a MAC ending in \<open>02\<close>, and the same peer
  after its IP and MAC have been set to nil (as \<open>stateInit\<close> does). It is the only peer of
  the store, at pointer 0. The tables are those of the theorems below.
\<close>

definition peer_ip_A :: NetworkPeer where
  "peer_ip_A =
     \<lparr>npID = ''peer-1'', ProxyID = 0, npEndpoint = None, KnownIPs = [], Proxies = [],
      PeerLocalIP = Some ''10.0.0.1'', PeerHW = Some ''06:00:00:00:00:01'',
      State = PeerStateConnected, RemoteState = PeerStateConnected,
      ConnectionAttempts = 1, Running = True, Endpoints = []\<rparr>"

definition peer_ip_B :: NetworkPeer where
  "peer_ip_B = peer_ip_A\<lparr>PeerLocalIP := Some ''10.0.0.2'', PeerHW := Some ''06:00:00:00:00:02''\<rparr>"

definition peer_cleared :: NetworkPeer where
  "peer_cleared = peer_ip_A\<lparr>PeerLocalIP := None, PeerHW := None\<rparr>"

definition table_A :: PeerList where
  "table_A = \<lparr>peers = [''peer-1'' \<mapsto> Some 0],
              tableIPID = [''10.0.0.1'' \<mapsto> ''peer-1''],
              tableMacID = [''06:00:00:00:00:01'' \<mapsto> ''peer-1'']\<rparr>"

definition table_AB :: PeerList where
  "table_AB = \<lparr>peers = [''peer-1'' \<mapsto> Some 0],
               tableIPID = [''10.0.0.1'' \<mapsto> ''peer-1'', ''10.0.0.2'' \<mapsto> ''peer-1''],
               tableMacID = [''06:00:00:00:00:01'' \<mapsto> ''peer-1'',
                             ''06:00:00:00:00:02'' \<mapsto> ''peer-1'']\<rparr>"

definition table_gone :: PeerList where
  "table_gone = \<lparr>peers = Map.empty,
                 tableIPID = [''10.0.0.1'' \<mapsto> ''peer-1''],
                 tableMacID = [''06:00:00:00:00:01'' \<mapsto> ''peer-1'']\<rparr>"

text \<open>
  A peer waiting in \<open>RequestedIP\<close>, entered at time 0, with one turn every 100 ms:
  \<open>tick_obs\<close> are 67 turns in which no endpoint arrives, \<open>answer_obs\<close> are 57 turns of which
  the last finds an endpoint.
\<close>

definition tick :: "nat \<Rightarrow> ip_obs" where
  "tick k = \<lparr>clock_since = 100000000 * int k, clock_now = 100000000 * int k,
             sendNode_err = False, seen_KnownIPs = []\<rparr>"

definition tick_obs :: "ip_obs list" where
  "tick_obs = map tick [0 ..< 67]"

definition answer_obs :: "ip_obs list" where
  "answer_obs = map tick [0 ..< 56] @ [(tick 56)\<lparr>seen_KnownIPs := [Some addr_C]\<rparr>]"

definition peer_waiting :: NetworkPeer where
  "peer_waiting =
     \<lparr>npID = ''id-b'', ProxyID = 0, npEndpoint = None, KnownIPs = [], Proxies = [],
      PeerLocalIP = None, PeerHW = None, State = PeerStateRequestedIP,
      RemoteState = PeerStateInit, ConnectionAttempts = 1, Running = True, Endpoints = []\<rparr>"

section \<open>The find response\<close>

text \<open>
  The scan of \<open>ResponseFind\<close> in closed form: one piece \<open>Endpoint @ ","\<close> for every node
  whose hash is the requested one and whose connection address is not the requester's, in
  the order of the list; the flag tells whether the requester is registered under the hash.
\<close>

lemma find_scan_eq:
  "find_scan nodes hash addr foundDest hashExists =
     (foundDest @ concat (map (\<lambda>n. Endpoint n @ '','')
         (filter (\<lambda>n. AssociatedHash n = hash \<and> ConnectionAddress n \<noteq> addr) nodes)),
      hashExists \<or> addr \<in> ConnectionAddress ` {n \<in> set nodes. AssociatedHash n = hash})"
  by (induction nodes arbitrary: foundDest hashExists) auto

lemma ResponseFind_dest:
  "respDest (fst (ResponseFind dht req addr)) =
     concat (map (\<lambda>n. Endpoint n @ '','')
       (filter (\<lambda>n. AssociatedHash n = reqHash req \<and> ConnectionAddress n \<noteq> addr)
          (NodeList dht)))"
  by (simp add: ResponseFind_def find_scan_eq)

text \<open>The node list \<open>nat_nodes\<close> is what the tracker holds after the six datagrams.\<close>

lemma nat_nodes_reached:
  "serve resolve_nat no_control nat_datagrams \<lparr>NodeList = [], Hashes = []\<rparr> =
     Some (Inr ([Some \<lparr>respCommand = ''conn'', respId = ''id-a'', respDest = ''0''\<rparr>,
                 Some \<lparr>respCommand = ''find'', respId = ''0'', respDest = []\<rparr>,
                 Some \<lparr>respCommand = ''conn'', respId = ''id-b'', respDest = ''0''\<rparr>,
                 Some \<lparr>respCommand = ''find'', respId = ''0'', respDest = ''198.51.100.7:4000,''\<rparr>,
                 Some \<lparr>respCommand = ''conn'', respId = ''id-c'', respDest = ''0''\<rparr>,
                 Some \<lparr>respCommand = ''find'', respId = ''0'',
                       respDest = ''198.51.100.7:4000,198.51.100.7:4000,''\<rparr>],
                \<lparr>NodeList = nat_nodes, Hashes = []\<rparr>))"
  by (simp add: nat_datagrams_def resolve_nat_def conn_4000_def find_net_X_def nat_nodes_def
      Listen_def register_peer_def ResponseConn_def ResponseFind_def CMD_CONN_def CMD_FIND_def
      UDPAddr_String_def zero_Node_def Let_def)

text \<open>
  Claim C1. A \<open>find\<close> under fingerprint F is to return every other node's declared endpoint
  exactly once and never the requester's own. The scan leaves out the node whose connection
  address is the requester's and nothing else: with the three nodes of \<open>nat_nodes\<close>, the
  third node's \<open>find\<close> gets the endpoint \<open>198.51.100.7:4000\<close> twice, and the first node's
  \<open>find\<close> gets \<open>198.51.100.7:4000\<close>, which is its own declared endpoint.
\<close>

theorem find_repeats_shared_endpoint:
  "respDest (fst (ResponseFind \<lparr>NodeList = nat_nodes, Hashes = []\<rparr> find_net_X
       ''203.0.113.5:3000'')) = ''198.51.100.7:4000,198.51.100.7:4000,''
   \<and> dest_entries (respDest (fst (ResponseFind \<lparr>NodeList = nat_nodes, Hashes = []\<rparr> find_net_X
       ''203.0.113.5:3000''))) = [''198.51.100.7:4000'', ''198.51.100.7:4000'']
   \<and> Endpoint (nat_nodes ! 0) = ''198.51.100.7:4000''
   \<and> ConnectionAddress (nat_nodes ! 0) = ''198.51.100.7:1000''
   \<and> dest_entries (respDest (fst (ResponseFind \<lparr>NodeList = nat_nodes, Hashes = []\<rparr> find_net_X
       ''198.51.100.7:1000''))) = [''198.51.100.7:4000'', ''203.0.113.5:5000'']"
  by (simp add: ResponseFind_def nat_nodes_def find_net_X_def dest_entries_def)

section \<open>The forwarder's tunnel ids\<close>

text \<open>
  The scan leaves \<open>responseId\<close> as it is unless some tunnel holds the very pointers
  \<open>src_addr\<close> and \<open>targetIp\<close>.
\<close>

lemma tunnel_scan_other:
  "(\<And>k t. T k = Some t \<Longrightarrow>
       \<not> (Peer1 t = src_addr \<and> Peer2 t = targetIp) \<and> \<not> (Peer2 t = src_addr \<and> Peer1 t = targetIp))
   \<Longrightarrow> tunnel_scan order T src_addr targetIp responseId = responseId"
  by (induction order arbitrary: responseId) (auto split: option.splits)

text \<open>
  A target that resolves is a new pointer, which no tunnel of a table over the store holds:
  whatever the source pointer is, the PROXY branch then finds no tunnel to reuse.
\<close>

lemma proxy_frame_never_reuses:
  assumes stored: "\<And>k t a. T k = Some t \<Longrightarrow> Peer1 t = Some a \<or> Peer2 t = Some a \<Longrightarrow> a < length h"
    and resolves: "resolve data = Some u"
  shows "tunnel_scan order T src_addr (fst (ResolveUDPAddr resolve h data)) (- 1) = - 1"
proof (rule tunnel_scan_other)
  fix k t
  assume t: "T k = Some t"
  have target: "fst (ResolveUDPAddr resolve h data) = Some (length h)"
    using resolves by (simp add: ResolveUDPAddr_def)
  have "Peer1 t \<noteq> Some (length h)" "Peer2 t \<noteq> Some (length h)"
    using stored [OF t, of "length h"] by auto
  then show "\<not> (Peer1 t = src_addr \<and> Peer2 t = fst (ResolveUDPAddr resolve h data)) \<and>
             \<not> (Peer2 t = src_addr \<and> Peer1 t = fst (ResolveUDPAddr resolve h data))"
    by (simp add: target)
qed

text \<open>The id the allocation loop picks is unused, and every value tried before it is used.\<close>

lemma first_free_least:
  "first_free is T = Some i \<Longrightarrow>
     i \<in> set is \<and> T (of_nat i) = None \<and>
     (\<forall>j \<in> set (takeWhile (\<lambda>j. j \<noteq> i) is). T (of_nat j) \<noteq> None)"
  by (induction "is") (auto split: if_splits)

text \<open>
  A table with fewer than 65535 tunnels has an unused id among the values the allocation
  loop tries, the keys \<open>uint16(i)\<close> for \<open>i\<close> from 1 to the size plus 1 being distinct.
\<close>

lemma first_free_None:
  "first_free is T = None \<longleftrightarrow> (\<forall>i \<in> set is. T (of_nat i) \<noteq> None)"
  by (induction "is") simp_all

lemma of_nat_inj_on_uint16:
  assumes "n < 65535"
  shows "inj_on (of_nat :: nat \<Rightarrow> 16 word) {1 ..< n + 2}"
proof (rule inj_onI)
  fix x y :: nat
  assume x: "x \<in> {1 ..< n + 2}" and y: "y \<in> {1 ..< n + 2}"
    and eq: "(of_nat x :: 16 word) = of_nat y"
  from x assms have "x < 65536" by simp
  then have bx: "x < 2 ^ LENGTH(16)" by simp
  from y assms have "y < 65536" by simp
  then have by': "y < 2 ^ LENGTH(16)" by simp
  have "x = unat (of_nat x :: 16 word)" using of_nat_inverse [OF refl bx] by (rule sym)
  also have "\<dots> = unat (of_nat y :: 16 word)" by (simp only: eq)
  also have "\<dots> = y" using of_nat_inverse [OF refl by'] .
  finally show "x = y" .
qed

lemma first_free_exists:
  assumes "card (dom T) < 65535"
  shows "\<exists>i. first_free [1 ..< card (dom T) + 2] T = Some i"
proof (rule ccontr)
  assume "\<not> ?thesis"
  then have "first_free [1 ..< card (dom T) + 2] T = None" by simp
  then have all: "\<forall>i \<in> {1 ..< card (dom T) + 2}. T (of_nat i) \<noteq> None"
    by (simp only: first_free_None set_upt)
  have "(of_nat :: nat \<Rightarrow> 16 word) ` {1 ..< card (dom T) + 2} \<subseteq> dom T"
  proof
    fix w :: "16 word"
    assume "w \<in> of_nat ` {1 ..< card (dom T) + 2}"
    then obtain i where "i \<in> {1 ..< card (dom T) + 2}" "w = of_nat i" by blast
    with all have "T w \<noteq> None" by blast
    then show "w \<in> dom T" by blast
  qed
  then have "card ((of_nat :: nat \<Rightarrow> 16 word) ` {1 ..< card (dom T) + 2}) \<le> card (dom T)"
    by (rule card_mono [OF finite])
  moreover have "card ((of_nat :: nat \<Rightarrow> 16 word) ` {1 ..< card (dom T) + 2}) = card {1 ..< card (dom T) + 2}"
    by (rule card_image [OF of_nat_inj_on_uint16 [OF assms]])
  moreover have "card {1 ..< card (dom T) + 2} = card (dom T) + 1" by simp
  ultimately show False by linarith
qed

text \<open>
  Hence what the PROXY branch does for every frame whose target resolves: it creates a
  tunnel under the first unused id and sends that id back.
\<close>

lemma HandleMessage_proxy_allocates:
  assumes proxy: "HeaderType m = MT_PROXY"
    and resolves: "resolve (Data m) = Some u"
    and stored: "\<And>k t a. T k = Some t \<Longrightarrow> Peer1 t = Some a \<or> Peer2 t = Some a \<Longrightarrow> a < length h"
    and room: "card (dom T) < 65535"
  shows "\<exists>i. first_free [1 ..< card (dom T) + 2] T = Some i \<and>
           HandleMessage resolve order T h src_addr (Some m) =
             (T(of_nat i \<mapsto> \<lparr>Peer1 = src_addr, Peer2 = Some (length h + 1), UniqueHash = []\<rparr>),
              h @ [u, u], [ProxyReply (int i) (Data m) src_addr])"
proof -
  from first_free_exists [OF room] obtain i
    where i: "first_free [1 ..< card (dom T) + 2] T = Some i" by blast
  have scan: "tunnel_scan order T src_addr (fst (ResolveUDPAddr resolve h (Data m))) (- 1) = - 1"
    using stored resolves by (rule proxy_frame_never_reuses)
  have r1: "ResolveUDPAddr resolve h (Data m) = (Some (length h), h @ [u])"
    using resolves by (simp add: ResolveUDPAddr_def)
  have r2: "ResolveUDPAddr resolve (h @ [u]) (Data m) = (Some (length h + 1), h @ [u, u])"
    using resolves by (simp add: ResolveUDPAddr_def)
  have "HandleMessage resolve order T h src_addr (Some m) =
             (T(of_nat i \<mapsto> \<lparr>Peer1 = src_addr, Peer2 = Some (length h + 1), UniqueHash = []\<rparr>),
              h @ [u, u], [ProxyReply (int i) (Data m) src_addr])"
    using scan i unfolding HandleMessage_def
    by (simp add: proxy r1 r2 Let_def del: upt_Suc)
  with i show ?thesis by blast
qed

text \<open>
  Claim C2. A PROXY frame for a pair of endpoints that already has a tunnel is to get that
  tunnel's id back. The first frame from \<open>addr_A\<close> for \<open>addr_C\<close> creates tunnel 1. The same
  frame again, from the same address (the listener hands it over behind a new pointer, 3,
  which prints as pointer 0 does), finds no tunnel, because the scan compares pointers:
  tunnel 2 is created for the same pair, and 2 is sent back. The same happens when the
  frame arrives behind the very pointer 0 that tunnel 1 holds, the target of the frame
  being resolved to a new pointer every time.
\<close>

theorem proxy_frame_again_gets_new_id:
  "HandleMessage resolve_AC [] Map.empty [addr_A] (Some 0) (Some proxy_frame) =
     (fw_tunnels, [addr_A, addr_C, addr_C], [ProxyReply 1 ''203.0.113.5:3000'' (Some 0)])
   \<and> ptr_String [addr_A, addr_C, addr_C, addr_A] (Some 3) =
       ptr_String [addr_A, addr_C, addr_C, addr_A] (Some 0)
   \<and> HandleMessage resolve_AC [1] fw_tunnels [addr_A, addr_C, addr_C, addr_A] (Some 3)
       (Some proxy_frame) =
     (fw_tunnels(2 \<mapsto> \<lparr>Peer1 = Some 3, Peer2 = Some 5, UniqueHash = []\<rparr>),
      [addr_A, addr_C, addr_C, addr_A, addr_C, addr_C],
      [ProxyReply 2 ''203.0.113.5:3000'' (Some 3)])
   \<and> HandleMessage resolve_AC [1] fw_tunnels [addr_A, addr_C, addr_C] (Some 0)
       (Some proxy_frame) =
     (fw_tunnels(2 \<mapsto> \<lparr>Peer1 = Some 0, Peer2 = Some 4, UniqueHash = []\<rparr>),
      [addr_A, addr_C, addr_C, addr_C, addr_C],
      [ProxyReply 2 ''203.0.113.5:3000'' (Some 0)])"
  by (simp add: HandleMessage_def resolve_AC_def proxy_frame_def fw_tunnels_def MT_PROXY_def
      ResolveUDPAddr_def ptr_String_def deref_def eval_nat_numeral)

section \<open>The ping loop\<close>

text \<open>A \<open>ping\<close> from an address sets the counter of its nodes to 0 and leaves the others.\<close>

lemma reset_missed_counts:
  "map MissedPing (reset_missed nodes addr) =
     map (\<lambda>n. if Addr n = addr then 0 else MissedPing n) nodes"
  by (induction nodes) simp_all

text \<open>The sweep adds one to every counter and sends one ping to every node.\<close>

lemma ping_scan_counts:
  "map MissedPing (fst (ping_scan i nodes)) = map (\<lambda>n. MissedPing n + 1) nodes"
  by (induction nodes arbitrary: i) (simp_all add: case_prod_beta Let_def)

lemma ping_scan_sends:
  "map fst (snd (snd (ping_scan i nodes))) = map Addr nodes"
  by (induction nodes arbitrary: i) (simp_all add: case_prod_beta Let_def)

text \<open>
  A node that is not the last of the list is removed as intended (the log line then reads
  the node that follows it): \<open>silent_node\<close> after two missed pings, followed by
  \<open>late_node\<close>, is gone after two more sweeps, and the loop goes on.
\<close>

lemma ping_loop_removes_inner_node:
  "Ping_loop 3 ([], [silent_node\<lparr>MissedPing := 2\<rparr>, late_node]) =
     Inr ([], [late_node\<lparr>MissedPing := 3\<rparr>])"
  by (simp add: Ping_iteration_def silent_node_def late_node_def eval_nat_numeral)

text \<open>
  Claim C3. A node that misses 4 pings is to be removed at the 4th cycle. With
  \<open>silent_node\<close> alone in the list, four iterations bring its counter to 4 and leave index 0
  to be removed. The fifth iteration starts at once: it removes the node and then reads
  \<open>NodeList[0]\<close> for its log line, in a list that is now empty. The loop ends in a panic.
\<close>

theorem ping_loop_panics_on_last_node:
  "Ping_loop 4 ([], [silent_node]) =
     Inr ([0], [silent_node\<lparr>MissedPing := 4, Disabled := True\<rparr>])
   \<and> Ping_loop 5 ([], [silent_node]) = Inl IndexOutOfRange"
  by (simp add: Ping_iteration_def silent_node_def eval_nat_numeral)

section \<open>Registration and the conn handshake\<close>

text \<open>With no infohash to compare with, \<open>GenerateID\<close> returns the first value it draws.\<close>

lemma GenerateID_no_hashes: "GenerateID (Some uid # uuids) [] = Some (Inr uid)"
  by simp

text \<open>\<open>ResponseConn\<close> writes the endpoint of every node with the sender's connection address.\<close>

lemma set_endpoint_eq:
  "set_endpoint nodes addr e =
     map (\<lambda>n. if ConnectionAddress n = addr then n\<lparr>Endpoint := e\<rparr> else n) nodes"
  by (induction nodes) simp_all

text \<open>
  The first datagram from an address, when it is a \<open>conn\<close>: the node is registered under
  the generated id, the response carries that id, and the node's endpoint is the printed
  form of what the source IP and the port of the message resolve to.
\<close>

lemma new_peer_conn_id:
  assumes new: "IsNewPeer (NodeList dht) addr"
    and uid: "GenerateID uuids (Hashes dht) = Some (Inr uid)"
    and conn: "reqCommand req = CMD_CONN"
    and a1: "resolve addr = Some a1"
  shows "\<exists>dht'. Listen resolve control uuids dht addr req =
           Some (Inr (Some \<lparr>respCommand = CMD_CONN, respId = uid, respDest = ''0''\<rparr>, dht'))
         \<and> map ID (NodeList dht') = map ID (NodeList dht) @ [uid]
         \<and> Endpoint (last (NodeList dht')) = UDPAddr_String (resolve (IP a1 @ '':'' @ reqPort req))"
  using assms
  by (simp add: Listen_def register_peer_def ResponseConn_def Let_def CMD_CONN_def
      set_endpoint_eq comp_def)

text \<open>
  For a sender that is already in the list, the local variable \<open>n\<close> of \<open>Listen\<close> stays at
  its zero value, and the \<open>conn\<close> response carries the id of \<open>n\<close>.
\<close>

lemma known_peer_conn_id:
  "\<not> IsNewPeer (NodeList dht) addr \<Longrightarrow> reqCommand req = CMD_CONN \<Longrightarrow>
   Listen resolve control uuids dht addr req = Some (Inr (Some resp, dht')) \<Longrightarrow> respId resp = []"
  by (auto simp: Listen_def register_peer_def ResponseConn_def zero_Node_def Let_def
      split: option.splits sum.splits if_splits)

text \<open>The client's turn on a \<open>conn\<close> response: the id is stored and a \<open>find\<close> is written.\<close>

lemma ListenDHT_conn:
  "respCommand data = CMD_CONN \<Longrightarrow>
     ListenDHT dht data =
       (dht\<lparr>dhtID := respId data\<rparr>,
        [\<lparr>reqCommand = CMD_FIND, reqId = ''0'',
          reqHash = (if NetworkHash dht \<noteq> [] then NetworkHash dht else ''0''), reqPort = []\<rparr>])"
  by (simp add: ListenDHT_def Compose_def)

text \<open>
  Claim C5. Every \<open>conn\<close> is to be answered with the sender's registered id. The first
  \<open>conn\<close> from \<open>198.51.100.7:1000\<close> registers the node with id \<open>id-a\<close>, sets its endpoint to
  \<open>198.51.100.7:4000\<close> and is answered with \<open>id-a\<close>. A second \<open>conn\<close> from the same address
  is answered with the empty id, and a client that receives this answer stores the empty
  string as its id.
\<close>

theorem second_conn_answers_empty_id:
  "Listen resolve_AC no_control [Some ''id-a''] \<lparr>NodeList = [], Hashes = []\<rparr>
       ''198.51.100.7:1000'' conn_4000 =
     Some (Inr (Some \<lparr>respCommand = ''conn'', respId = ''id-a'', respDest = ''0''\<rparr>,
                \<lparr>NodeList = [node_A_fresh], Hashes = []\<rparr>))
   \<and> Listen resolve_AC no_control [] \<lparr>NodeList = [node_A_fresh], Hashes = []\<rparr>
       ''198.51.100.7:1000'' conn_4000 =
     Some (Inr (Some \<lparr>respCommand = ''conn'', respId = [], respDest = ''0''\<rparr>,
                \<lparr>NodeList = [node_A_fresh], Hashes = []\<rparr>))
   \<and> dhtID (fst (ListenDHT \<lparr>dhtID = ''id-a'', NetworkHash = ''net-X'', LastCatch = []\<rparr>
         \<lparr>respCommand = ''conn'', respId = [], respDest = ''0''\<rparr>)) = []"
  by (simp add: Listen_def register_peer_def ResponseConn_def resolve_AC_def conn_4000_def
      node_A_fresh_def addr_A_def CMD_CONN_def UDPAddr_String_def zero_Node_def Let_def
      ListenDHT_def)

text \<open>
  Claim C9. The id of a newly registered node is to differ from the id of every node in
  the list. \<open>GenerateID\<close> compares the value it draws with the infohashes of the router,
  not with the ids in the node list: when the generator returns \<open>id-a\<close> while the node with
  id \<open>id-a\<close> is registered, the new node is registered with \<open>id-a\<close> as well.
\<close>

theorem registration_accepts_id_in_use:
  "register_peer [Some ''id-a''] \<lparr>NodeList = [node_A_fresh], Hashes = []\<rparr> ''203.0.113.5:3000'' =
     Some (Inr (\<lparr>ID = ''id-a'', Endpoint = [], ConnectionAddress = ''203.0.113.5:3000'',
                 AssociatedHash = [], Addr = ''203.0.113.5:3000'', MissedPing = 0,
                 Disabled = False\<rparr>,
                \<lparr>NodeList =
                   [node_A_fresh,
                    \<lparr>ID = ''id-a'', Endpoint = [], ConnectionAddress = ''203.0.113.5:3000'',
                     AssociatedHash = [], Addr = ''203.0.113.5:3000'', MissedPing = 0,
                     Disabled = False\<rparr>],
                 Hashes = []\<rparr>))
   \<and> ID node_A_fresh = ''id-a''"
  by (simp add: register_peer_def node_A_fresh_def Let_def)

section \<open>The sender started by stateConnecting\<close>

text \<open>The handler sets the state to \<open>Routing\<close> whatever the task does.\<close>

lemma stateConnecting_state:
  "State (fst (stateConnecting np)) = PeerStateRouting"
  by (simp add: stateConnecting_def SetState_def)

text \<open>
  Claim C8. The sender is to stop after 10 rounds. Started with \<open>round = 0\<close>, it has not left
  its loop after any number of turns: after \<open>fuel\<close> turns it has gone through \<open>fuel\<close> rounds,
  each one frame and a pause of 5 ms per endpoint (where creating and sending succeed)
  followed by a pause of 20 ms, and goes on.
\<close>

theorem intro_sender_never_returns:
  "intro_sender fuel create_ok send_ok dht_id ips 0 [] =
     (concat (replicate fuel (intro_round create_ok send_ok dht_id ips @ [Pause 20])), False)"
proof -
  have "intro_sender fuel create_ok send_ok dht_id ips 0 evs =
          (evs @ concat (replicate fuel (intro_round create_ok send_ok dht_id ips @ [Pause 20])),
           False)" for evs
    by (induction fuel arbitrary: evs) simp_all
  then show ?thesis by simp
qed

section \<open>The driver without an id\<close>

text \<open>
  While every turn finds the client's id empty, the handlers play no part in what the loop
  returns, none is called, and a loop that has made a turn was left if and only if the
  peer's state is \<open>Stop\<close>.
\<close>

lemma Run_loop_any_handler:
  "\<forall>ob \<in> set obs. fst ob = [] \<Longrightarrow>
     Run_loop call obs np called = Run_loop call' obs np called"
  by (induction obs arbitrary: np) (auto simp: Let_def)

lemma Run_loop_no_call:
  "\<forall>ob \<in> set obs. fst ob = [] \<Longrightarrow> snd (snd (Run_loop call obs np called)) = called"
  by (induction obs arbitrary: np) (auto simp: Let_def)

lemma Run_loop_left_on_Stop:
  "\<forall>ob \<in> set obs. fst ob = [] \<Longrightarrow> obs \<noteq> [] \<Longrightarrow>
     fst (Run_loop call obs np called) =
       (State (fst (snd (Run_loop call obs np called))) = PeerStateStop)"
proof (induction obs arbitrary: np)
  case Nil
  then show ?case by simp
next
  case (Cons ob obs)
  obtain dht_id others where ob: "ob = (dht_id, others)" by (cases ob)
  from Cons.prems ob have id: "dht_id = []" and rest: "\<forall>ob \<in> set obs. fst ob = []" by auto
  show ?case
  proof (cases "State (others np) = PeerStateStop")
    case True
    then show ?thesis by (simp add: ob)
  next
    case False
    show ?thesis
    proof (cases "obs = []")
      case True
      with False show ?thesis by (simp add: ob id)
    next
      case nonempty: False
      from False Cons.IH [OF rest nonempty, of "others np"] show ?thesis by (simp add: ob id)
    qed
  qed
qed

lemma Run_loop_stops:
  "State (others np) = PeerStateStop \<Longrightarrow>
     Run_loop call ((dht_id, others) # obs) np called = (True, others np, called)"
  by simp

text \<open>
  Claim C10. While the client's id is empty, \<open>Run\<close> calls no state handler: the list of
  handlers called is empty and the result is the same for every behaviour of the handlers,
  so only the other tasks change the peer. The loop is left exactly when such a change
  sets the state to \<open>Stop\<close>.
\<close>

theorem Run_calls_no_handler_without_id:
  assumes "\<forall>ob \<in> set obs. fst ob = []"
  shows "snd (snd (Run call obs np)) = []
    \<and> Run call obs np = Run call' obs np
    \<and> (obs \<noteq> [] \<longrightarrow> fst (Run call obs np) = (State (fst (snd (Run call obs np))) = PeerStateStop))"
  using Run_loop_no_call [OF assms] Run_loop_any_handler [OF assms] Run_loop_left_on_Stop [OF assms]
  by (simp add: Run_def)

theorem Run_calls_no_handler_without_id_witness:
  "map fst no_id_obs = [[], [], [], []]
   \<and> Run connect_at_once no_id_obs peer_init = (True, peer_init\<lparr>State := PeerStateStop, Running := True\<rparr>, [])
   \<and> Run connect_at_once (take 2 no_id_obs) peer_init = (False, peer_init\<lparr>Running := True\<rparr>, [])"
proof -
  have h: "\<forall>ob \<in> set no_id_obs. fst ob = []" by (simp add: no_id_obs_def)
  have ev: "Run (\<lambda>callback np. np) no_id_obs peer_init = (True, peer_init\<lparr>State := PeerStateStop, Running := True\<rparr>, [])"
    by (simp add: Run_def no_id_obs_def peer_init_def stop_peer_def)
  have ev2: "Run connect_at_once (take 2 no_id_obs) peer_init = (False, peer_init\<lparr>Running := True\<rparr>, [])"
    by (simp add: Run_def no_id_obs_def peer_init_def stop_peer_def)
  from Run_calls_no_handler_without_id [OF h, of connect_at_once peer_init "\<lambda>callback np. np"] ev ev2
  show ?thesis by (simp add: no_id_obs_def)
qed

section \<open>The ranking of endpoints\<close>

text \<open>
  The loop of \<open>stateRouting\<close> fills the three buckets of the specification, in the order of
  the list, when no entry has a nil address.
\<close>

lemma routing_scan_buckets:
  "\<forall>ep \<in> set eps. epAddr ep \<noteq> None \<Longrightarrow>
   routing_scan isPrivateIP prx clock i eps locals internet proxies =
     Inr (locals @ spec_locals isPrivateIP prx clock i eps,
          internet @ spec_internet isPrivateIP prx clock i eps,
          proxies @ spec_proxies prx clock i eps)"
proof (induction eps arbitrary: i locals internet proxies)
  case Nil
  then show ?case by (simp add: spec_locals_def spec_internet_def spec_proxies_def)
next
  case (Cons ep eps)
  from Cons.prems obtain a where a: "epAddr ep = Some a" by auto
  from Cons.prems have rest: "\<forall>ep \<in> set eps. epAddr ep \<noteq> None" by simp
  note IH = Cons.IH [OF rest]
  show ?case
    by (cases "isPrivateIP (IP a)")
       (simp_all add: IH a spec_locals_def spec_internet_def spec_proxies_def
          recently_touched_def private_ip_def not_less)
qed

text \<open>
  Claim C6. In state \<open>Routing\<close> the entries touched within 10 ms are kept and ordered LAN,
  WAN, forwarder; if any is left the first one's address becomes the endpoint and the
  state \<open>Connected\<close>, otherwise the state becomes \<open>Disconnect\<close>. When a recently touched
  LAN entry exists, the endpoint is the first such entry's address. An entry for which
  \<open>isPrivateIP\<close> returns an error is in no bucket; the theorem is for lists without a nil
  address.
\<close>

theorem stateRouting_ranks_endpoints:
  assumes "\<forall>ep \<in> set (Endpoints np). epAddr ep \<noteq> None"
  shows "stateRouting isPrivateIP clock np =
           Inr (case spec_locals isPrivateIP (Proxies np) clock 0 (Endpoints np)
                     @ spec_internet isPrivateIP (Proxies np) clock 0 (Endpoints np)
                     @ spec_proxies (Proxies np) clock 0 (Endpoints np) of
                  [] \<Rightarrow> SetState (np\<lparr>Endpoints := []\<rparr>) PeerStateDisconnect
                | ep # eps \<Rightarrow>
                    SetState (np\<lparr>Endpoints := ep # eps, npEndpoint := epAddr ep\<rparr>)
                      PeerStateConnected)
         \<and> (\<forall>np' calls. stateRouting isPrivateIP clock np = Inr (np', calls) \<longrightarrow>
               spec_locals isPrivateIP (Proxies np) clock 0 (Endpoints np) \<noteq> [] \<longrightarrow>
               npEndpoint np' = epAddr (hd (spec_locals isPrivateIP (Proxies np) clock 0 (Endpoints np)))
               \<and> State np' = PeerStateConnected)"
proof -
  have main: "stateRouting isPrivateIP clock np =
           Inr (case spec_locals isPrivateIP (Proxies np) clock 0 (Endpoints np)
                     @ spec_internet isPrivateIP (Proxies np) clock 0 (Endpoints np)
                     @ spec_proxies (Proxies np) clock 0 (Endpoints np) of
                  [] \<Rightarrow> SetState (np\<lparr>Endpoints := []\<rparr>) PeerStateDisconnect
                | ep # eps \<Rightarrow>
                    SetState (np\<lparr>Endpoints := ep # eps, npEndpoint := epAddr ep\<rparr>)
                      PeerStateConnected)"
    by (simp add: stateRouting_def routing_scan_buckets [OF assms] split: list.splits)
  have "npEndpoint np' = epAddr (hd (spec_locals isPrivateIP (Proxies np) clock 0 (Endpoints np)))
        \<and> State np' = PeerStateConnected"
    if st: "stateRouting isPrivateIP clock np = Inr (np', calls)"
      and ne: "spec_locals isPrivateIP (Proxies np) clock 0 (Endpoints np) \<noteq> []"
    for np' calls
  proof -
    obtain ep eps where L: "spec_locals isPrivateIP (Proxies np) clock 0 (Endpoints np) = ep # eps"
      using ne by (cases "spec_locals isPrivateIP (Proxies np) clock 0 (Endpoints np)") auto
    from st show ?thesis
      unfolding main by (auto simp: L SetState_def)
  qed
  with main show ?thesis by blast
qed

theorem stateRouting_ranks_endpoints_witness:
  "None \<notin> set (map epAddr (Endpoints peer_routing))
   \<and> stateRouting private_example clock_ms peer_routing =
       Inr (peer_routing\<lparr>Endpoints := [ep_private, ep_public, ep_proxy],
                         npEndpoint := epAddr ep_private, State := PeerStateConnected\<rparr>,
            [SendState ''id-b'' PeerStateConnected])"
proof -
  have h: "\<forall>ep \<in> set (Endpoints peer_routing). epAddr ep \<noteq> None"
    by (simp add: peer_routing_def ep_private_def ep_public_def ep_proxy_def ep_stale_def)
  have L: "spec_locals private_example (Proxies peer_routing) clock_ms 0 (Endpoints peer_routing) = [ep_private]"
    by (simp add: spec_locals_def peer_routing_def ep_private_def ep_public_def ep_proxy_def
        ep_stale_def recently_touched_def private_ip_def private_example_def clock_ms_def
        UDPAddr_String_def enumerate_eq_zip upt_rec)
  have I: "spec_internet private_example (Proxies peer_routing) clock_ms 0 (Endpoints peer_routing) = [ep_public]"
    by (simp add: spec_internet_def peer_routing_def ep_private_def ep_public_def ep_proxy_def
        ep_stale_def recently_touched_def private_ip_def private_example_def clock_ms_def
        UDPAddr_String_def enumerate_eq_zip upt_rec)
  have P: "spec_proxies (Proxies peer_routing) clock_ms 0 (Endpoints peer_routing) = [ep_proxy]"
    by (simp add: spec_proxies_def peer_routing_def ep_private_def ep_public_def ep_proxy_def
        ep_stale_def recently_touched_def private_ip_def private_example_def clock_ms_def
        UDPAddr_String_def enumerate_eq_zip upt_rec)
  have nonnil: "None \<notin> set (map epAddr (Endpoints peer_routing))"
    by (simp add: peer_routing_def ep_private_def ep_public_def ep_proxy_def ep_stale_def)
  from stateRouting_ranks_endpoints [OF h, of private_example clock_ms]
  have "stateRouting private_example clock_ms peer_routing =
       Inr (peer_routing\<lparr>Endpoints := [ep_private, ep_public, ep_proxy],
                         npEndpoint := epAddr ep_private, State := PeerStateConnected\<rparr>,
            [SendState ''id-b'' PeerStateConnected])"
    unfolding L I P by (simp add: SetState_def peer_routing_def)
  with nonnil show ?thesis by blast
qed

section \<open>Waiting for the peer's addresses\<close>

lemma node_requests_append [simp]:
  "node_requests (xs @ ys) = node_requests xs + node_requests ys"
  by (induction xs rule: node_requests.induct) simp_all

lemma requestedIP_loop_returns:
  "sleeps t obs \<Longrightarrow> attempts \<le> 5 \<Longrightarrow>
   1100000000 * (5 - int attempts) + max 0 (1000000000 - (t - requestSentAt)) + 100000000
     \<le> 100000000 * int (length obs) \<Longrightarrow>
   requestedIP_loop obs np requestSentAt attempts calls \<noteq> None"
proof (induction obs arbitrary: np requestSentAt attempts calls t)
  case Nil
  then show ?case by (simp add: max_def split: if_splits)
next
  case (Cons ob obs)
  from Cons.prems(1) have c1: "t + 100000000 \<le> clock_since ob"
    and c2: "clock_since ob \<le> clock_now ob" and rest: "sleeps (clock_now ob) obs" by simp_all
  let ?np1 = "np\<lparr>KnownIPs := seen_KnownIPs ob\<rparr>"
  show ?case
  proof (cases "1000000000 < clock_since ob - requestSentAt")
    case again: True
    show ?thesis
    proof (cases "attempts = 5 \<or> sendNode_err ob \<or> seen_KnownIPs ob \<noteq> []")
      case True
      with again show ?thesis by (auto simp: Let_def)
    next
      case False
      then have a: "attempts + 1 \<le> 5" using Cons.prems(2) by simp
      have bound: "1100000000 * (5 - int (attempts + 1)) + max 0 (1000000000 - (clock_now ob - clock_now ob)) + 100000000
         \<le> 100000000 * int (length obs)"
        using Cons.prems(3) by (simp add: max_def split: if_splits)
      from Cons.IH [OF rest a bound, of ?np1 "calls @ [SendNode (npID np)]"] again False a
      show ?thesis by (simp add: Let_def)
    qed
  next
    case wait: False
    show ?thesis
    proof (cases "seen_KnownIPs ob \<noteq> []")
      case True
      with wait Cons.prems(2) show ?thesis by (auto simp: Let_def)
    next
      case False
      have bound: "1100000000 * (5 - int attempts) + max 0 (1000000000 - (clock_now ob - requestSentAt)) + 100000000
         \<le> 100000000 * int (length obs)"
        using Cons.prems(3) wait c1 c2 by (simp add: max_def split: if_splits)
      from Cons.IH [OF rest Cons.prems(2) bound, of ?np1 calls] wait False Cons.prems(2)
      show ?thesis by (simp add: Let_def)
    qed
  qed
qed

lemma requestedIP_loop_no_answer:
  "\<forall>ob \<in> set obs. seen_KnownIPs ob = [] \<and> \<not> sendNode_err ob \<Longrightarrow> attempts \<le> 5 \<Longrightarrow>
   requestedIP_loop obs np requestSentAt attempts calls = Some (np', calls', err) \<Longrightarrow>
   State np' = PeerStateDisconnect \<and> \<not> err \<and> node_requests calls' + attempts = node_requests calls + 6"
proof (induction obs arbitrary: np requestSentAt attempts calls)
  case Nil
  then show ?case by simp
next
  case (Cons ob obs)
  from Cons.prems(1) have ob: "seen_KnownIPs ob = []" "\<not> sendNode_err ob"
    and rest: "\<forall>ob \<in> set obs. seen_KnownIPs ob = [] \<and> \<not> sendNode_err ob" by simp_all
  let ?np1 = "np\<lparr>KnownIPs := seen_KnownIPs ob\<rparr>"
  show ?case
  proof (cases "1000000000 < clock_since ob - requestSentAt")
    case again: True
    show ?thesis
    proof (cases "attempts = 5")
      case True
      with again ob Cons.prems(3) show ?thesis by (auto simp: Let_def SetState_def)
    next
      case False
      then have a: "attempts + 1 \<le> 5" using Cons.prems(2) by simp
      from Cons.prems(3) again ob False Cons.prems(2)
      have "requestedIP_loop obs ?np1 (clock_now ob) (attempts + 1) (calls @ [SendNode (npID np)])
              = Some (np', calls', err)"
        by (simp add: Let_def)
      from Cons.IH [OF rest a this] show ?thesis by simp
    qed
  next
    case wait: False
    from Cons.prems(3) wait ob Cons.prems(2)
    have "requestedIP_loop obs ?np1 requestSentAt attempts calls = Some (np', calls', err)"
      by (simp add: Let_def)
    from Cons.IH [OF rest Cons.prems(2) this] show ?thesis .
  qed
qed

lemma requestedIP_loop_states:
  "requestedIP_loop obs np requestSentAt attempts calls = Some (np', calls', err) \<Longrightarrow>
   State np' \<noteq> PeerStateDisconnect \<Longrightarrow>
   State np' = PeerStateRequestingProxy \<and> KnownIPs np' \<noteq> [] \<and> \<not> err"
proof (induction obs arbitrary: np requestSentAt attempts calls)
  case Nil
  then show ?case by simp
next
  case (Cons ob obs)
  show ?case
  proof (cases "1000000000 < clock_since ob - requestSentAt")
    case True
    with Cons.prems Cons.IH show ?thesis
      by (auto simp: Let_def SetState_def split: if_splits)
  next
    case False
    with Cons.prems Cons.IH show ?thesis
      by (auto simp: Let_def SetState_def split: if_splits)
  qed
qed

lemma requestedIP_loop_requests:
  "requestedIP_loop obs np requestSentAt attempts calls = Some (np', calls', err) \<Longrightarrow>
   attempts \<le> 5 \<Longrightarrow> State np' \<noteq> PeerStateDisconnect \<Longrightarrow>
   node_requests calls' + attempts \<le> node_requests calls + 5"
proof (induction obs arbitrary: np requestSentAt attempts calls)
  case Nil
  then show ?case by simp
next
  case (Cons ob obs)
  let ?np1 = "np\<lparr>KnownIPs := seen_KnownIPs ob\<rparr>"
  show ?case
  proof (cases "1000000000 < clock_since ob - requestSentAt")
    case again: True
    show ?thesis
    proof (cases "sendNode_err ob \<or> attempts = 5")
      case True
      from Cons.prems(1) again True have "State np' = PeerStateDisconnect"
        by (cases "sendNode_err ob") (auto simp add: Let_def SetState_def)
      with Cons.prems(3) show ?thesis by simp
    next
      case False
      then have a: "attempts + 1 \<le> 5" using Cons.prems(2) by simp
      show ?thesis
      proof (cases "seen_KnownIPs ob = []")
        case True
        with Cons.prems(1) again False a
        have "requestedIP_loop obs ?np1 (clock_now ob) (attempts + 1) (calls @ [SendNode (npID np)])
                = Some (np', calls', err)"
          by (simp add: Let_def)
        from Cons.IH [OF this a Cons.prems(3)] show ?thesis by simp
      next
        case seen: False
        with Cons.prems(1) again False a show ?thesis by (auto simp: Let_def SetState_def)
      qed
    qed
  next
    case wait: False
    show ?thesis
    proof (cases "seen_KnownIPs ob = []")
      case True
      with Cons.prems(1) wait Cons.prems(2)
      have "requestedIP_loop obs ?np1 requestSentAt attempts calls = Some (np', calls', err)"
        by (simp add: Let_def)
      from Cons.IH [OF this Cons.prems(2) Cons.prems(3)] show ?thesis .
    next
      case False
      with Cons.prems wait show ?thesis by (auto simp: Let_def SetState_def)
    qed
  qed
qed

text \<open>
  An endpoint that a turn finds while the sixth request is not yet due is taken: the
  requests are more than a second apart, so the sixth is sent later than 6 s after the
  entry.
\<close>

lemma sleeps_append_mono:
  "sleeps t (pre @ ob # post) \<Longrightarrow> t + 100000000 \<le> clock_since ob"
proof (induction pre arbitrary: t)
  case Nil
  then show ?case by simp
next
  case (Cons o' pre)
  from Cons.prems have "t + 100000000 \<le> clock_since o'" "clock_since o' \<le> clock_now o'"
    "sleeps (clock_now o') (pre @ ob # post)" by simp_all
  with Cons.IH [of "clock_now o'"] show ?case by simp
qed

lemma requestedIP_loop_answer:
  "\<forall>o' \<in> set pre. seen_KnownIPs o' = [] \<and> \<not> sendNode_err o' \<Longrightarrow>
   seen_KnownIPs ob \<noteq> [] \<Longrightarrow> \<not> sendNode_err ob \<Longrightarrow>
   sleeps t (pre @ ob # post) \<Longrightarrow> attempts \<le> 5 \<Longrightarrow>
   clock_since ob \<le> requestSentAt + (6 - int attempts) * 1000000000 \<Longrightarrow>
   \<exists>np' calls'. requestedIP_loop (pre @ ob # post) np requestSentAt attempts calls
       = Some (np', calls', False)
     \<and> State np' = PeerStateRequestingProxy \<and> KnownIPs np' = seen_KnownIPs ob"
proof (induction pre arbitrary: np requestSentAt attempts calls t)
  case Nil
  show ?case
  proof (cases "1000000000 < clock_since ob - requestSentAt")
    case True
    with Nil.prems(6) have "attempts < 5" by (cases "attempts = 5") (use Nil.prems(5) in auto)
    with True Nil.prems(2,3) show ?thesis by (simp add: Let_def SetState_def)
  next
    case False
    with Nil.prems(2,3,5) show ?thesis by (simp add: Let_def SetState_def)
  qed
next
  case (Cons o' pre)
  from Cons.prems(1) have quiet: "seen_KnownIPs o' = []" "\<not> sendNode_err o'"
    and rest: "\<forall>o' \<in> set pre. seen_KnownIPs o' = [] \<and> \<not> sendNode_err o'" by simp_all
  from Cons.prems(4) have c1: "t + 100000000 \<le> clock_since o'" and c2: "clock_since o' \<le> clock_now o'"
    and sl: "sleeps (clock_now o') (pre @ ob # post)" by simp_all
  from sleeps_append_mono [OF sl] have later: "clock_now o' + 100000000 \<le> clock_since ob" .
  let ?np1 = "np\<lparr>KnownIPs := seen_KnownIPs o'\<rparr>"
  show ?case
  proof (cases "1000000000 < clock_since o' - requestSentAt")
    case True
    with Cons.prems(6) later c2 have less: "attempts < 5"
      by (cases "attempts = 5") (use Cons.prems(5) in auto)
    then have a: "attempts + 1 \<le> 5" by simp
    have deadline: "clock_since ob \<le> clock_now o' + (6 - int (attempts + 1)) * 1000000000"
      using True Cons.prems(6) c2 by (simp add: algebra_simps)
    from Cons.IH [OF rest Cons.prems(2,3) sl a deadline, of ?np1 "calls @ [SendNode (npID np)]"]
    show ?thesis using True quiet less by (simp add: Let_def)
  next
    case False
    from Cons.IH [OF rest Cons.prems(2,3) sl Cons.prems(5) Cons.prems(6), of ?np1 calls]
    show ?thesis using False quiet Cons.prems(5) by (simp add: Let_def)
  qed
qed

text \<open>
  Claim C7, as stated, is false for the number 5. With a turn every 100 ms and no
  endpoint arriving, the handler sends 6 \<open>node\<close> requests before it sets \<open>Disconnect\<close>;
  and when an endpoint arrives after the fifth request, the handler still takes it and
  sets \<open>RequestingProxy\<close>.
\<close>

theorem stateRequestedIP_five_requests_counterexample:
  "stateRequestedIP tick_obs 0 peer_waiting =
     Some (peer_waiting\<lparr>State := PeerStateDisconnect\<rparr>,
           replicate 6 (SendNode ''id-b'') @ [SendState ''id-b'' PeerStateDisconnect], False)
   \<and> stateRequestedIP answer_obs 0 peer_waiting =
     Some (peer_waiting\<lparr>KnownIPs := [Some addr_C], State := PeerStateRequestingProxy\<rparr>,
           replicate 5 (SendNode ''id-b'') @ [SendState ''id-b'' PeerStateRequestingProxy],
           False)"
  by (simp add: stateRequestedIP_def tick_obs_def answer_obs_def tick_def peer_waiting_def
      SetState_def Let_def upt_rec eval_nat_numeral)

text \<open>
  Claim C7, amended. Under a clock that runs, the handler returns within 67 turns. When no
  endpoint arrives and no request fails, it returns with the state \<open>Disconnect\<close> after
  exactly 6 \<open>node\<close> requests. When a turn not later than 6 s after the entry is the first
  to find an endpoint, the handler returns in that turn with the state \<open>RequestingProxy\<close>.
  When it returns with a state other than \<open>Disconnect\<close>, that state is \<open>RequestingProxy\<close>,
  the list of known endpoints is not empty, and at most 5 \<open>node\<close> requests were sent.
\<close>

theorem stateRequestedIP_six_requests:
  "(clock_runs start obs \<and> 67 \<le> length obs \<longrightarrow> stateRequestedIP obs start np \<noteq> None)
   \<and> ((\<forall>ob \<in> set obs. seen_KnownIPs ob = [] \<and> \<not> sendNode_err ob)
        \<and> stateRequestedIP obs start np = Some (np', calls, err)
      \<longrightarrow> State np' = PeerStateDisconnect \<and> \<not> err \<and> node_requests calls = 6)
   \<and> (clock_runs start (pre @ ob # post)
        \<and> (\<forall>o' \<in> set pre. seen_KnownIPs o' = [] \<and> \<not> sendNode_err o')
        \<and> seen_KnownIPs ob \<noteq> [] \<and> \<not> sendNode_err ob
        \<and> clock_since ob \<le> start + 6 * 1000000000
      \<longrightarrow> (\<exists>np2 calls2. stateRequestedIP (pre @ ob # post) start np = Some (np2, calls2, False)
            \<and> State np2 = PeerStateRequestingProxy \<and> KnownIPs np2 = seen_KnownIPs ob))
   \<and> (stateRequestedIP obs start np = Some (np', calls, err) \<and> State np' \<noteq> PeerStateDisconnect
      \<longrightarrow> State np' = PeerStateRequestingProxy \<and> KnownIPs np' \<noteq> [] \<and> \<not> err
          \<and> node_requests calls \<le> 5)"
proof (intro conjI impI)
  assume "clock_runs start obs \<and> 67 \<le> length obs"
  then have s: "sleeps (start - 100 * 1000000) obs" and l: "67 \<le> length obs"
    by (simp_all add: clock_runs_def)
  have "1100000000 * (5 - int (0::nat)) + max 0 (1000000000 - (start - 100 * 1000000 - start)) + 100000000
          \<le> 100000000 * int (length obs)"
    using l by simp
  from requestedIP_loop_returns [OF s _ this]
  show "stateRequestedIP obs start np \<noteq> None" by (simp add: stateRequestedIP_def)
next
  assume a: "(\<forall>ob \<in> set obs. seen_KnownIPs ob = [] \<and> \<not> sendNode_err ob)
        \<and> stateRequestedIP obs start np = Some (np', calls, err)"
  then have r: "requestedIP_loop obs np start 0 [] = Some (np', calls, err)"
    by (simp add: stateRequestedIP_def)
  from requestedIP_loop_no_answer [OF _ _ r] a
  show "State np' = PeerStateDisconnect" "\<not> err" "node_requests calls = 6" by simp_all
next
  assume a: "clock_runs start (pre @ ob # post)
        \<and> (\<forall>o' \<in> set pre. seen_KnownIPs o' = [] \<and> \<not> sendNode_err o')
        \<and> seen_KnownIPs ob \<noteq> [] \<and> \<not> sendNode_err ob
        \<and> clock_since ob \<le> start + 6 * 1000000000"
  then have s: "sleeps (start - 100 * 1000000) (pre @ ob # post)"
    and quiet: "\<forall>o' \<in> set pre. seen_KnownIPs o' = [] \<and> \<not> sendNode_err o'"
    and seen: "seen_KnownIPs ob \<noteq> []" and ok: "\<not> sendNode_err ob"
    and "clock_since ob \<le> start + 6 * 1000000000"
    by (simp_all add: clock_runs_def)
  then have deadline: "clock_since ob \<le> start + (6 - int (0::nat)) * 1000000000" by simp
  from requestedIP_loop_answer [OF quiet seen ok s _ deadline, of np "[]"]
  show "\<exists>np2 calls2. stateRequestedIP (pre @ ob # post) start np = Some (np2, calls2, False)
            \<and> State np2 = PeerStateRequestingProxy \<and> KnownIPs np2 = seen_KnownIPs ob"
    by (simp add: stateRequestedIP_def)
next
  assume a: "stateRequestedIP obs start np = Some (np', calls, err) \<and> State np' \<noteq> PeerStateDisconnect"
  then have r: "requestedIP_loop obs np start 0 [] = Some (np', calls, err)"
    and st: "State np' \<noteq> PeerStateDisconnect"
    by (simp_all add: stateRequestedIP_def)
  from requestedIP_loop_states [OF r st]
  show "State np' = PeerStateRequestingProxy" "KnownIPs np' \<noteq> []" "\<not> err" by simp_all
  from requestedIP_loop_requests [OF r _ st] show "node_requests calls \<le> 5" by simp
qed

theorem stateRequestedIP_six_requests_witness:
  "clock_runs 0 tick_obs \<and> length tick_obs = 67
   \<and> stateRequestedIP tick_obs 0 peer_waiting \<noteq> None
   \<and> stateRequestedIP tick_obs 0 peer_waiting =
       Some (peer_waiting\<lparr>State := PeerStateDisconnect\<rparr>,
             replicate 6 (SendNode ''id-b'') @ [SendState ''id-b'' PeerStateDisconnect], False)
   \<and> node_requests (replicate 6 (SendNode ''id-b'') @ [SendState ''id-b'' PeerStateDisconnect]) = 6
   \<and> clock_runs 0 answer_obs
   \<and> clock_since (last answer_obs) = 5600000000
   \<and> stateRequestedIP answer_obs 0 peer_waiting =
       Some (peer_waiting\<lparr>KnownIPs := [Some addr_C], State := PeerStateRequestingProxy\<rparr>,
             replicate 5 (SendNode ''id-b'') @ [SendState ''id-b'' PeerStateRequestingProxy],
             False)
   \<and> node_requests (replicate 5 (SendNode ''id-b'') @ [SendState ''id-b'' PeerStateRequestingProxy]) \<le> 5"
proof -
  have run: "clock_runs 0 tick_obs"
    by (simp add: clock_runs_def tick_obs_def tick_def upt_rec eval_nat_numeral)
  have len: "length tick_obs = 67" by (simp add: tick_obs_def)
  have quiet: "\<forall>ob \<in> set tick_obs. seen_KnownIPs ob = [] \<and> \<not> sendNode_err ob"
    by (auto simp: tick_obs_def tick_def)
  have ev1: "stateRequestedIP tick_obs 0 peer_waiting =
     Some (peer_waiting\<lparr>State := PeerStateDisconnect\<rparr>,
           replicate 6 (SendNode ''id-b'') @ [SendState ''id-b'' PeerStateDisconnect], False)"
    by (simp add: stateRequestedIP_def tick_obs_def tick_def peer_waiting_def SetState_def Let_def
        upt_rec eval_nat_numeral)
  have ev2: "stateRequestedIP answer_obs 0 peer_waiting =
     Some (peer_waiting\<lparr>KnownIPs := [Some addr_C], State := PeerStateRequestingProxy\<rparr>,
           replicate 5 (SendNode ''id-b'') @ [SendState ''id-b'' PeerStateRequestingProxy], False)"
    by (simp add: stateRequestedIP_def answer_obs_def tick_def peer_waiting_def SetState_def Let_def
        upt_rec eval_nat_numeral)
  have run2: "clock_runs 0 answer_obs"
    by (simp add: clock_runs_def answer_obs_def tick_def upt_rec eval_nat_numeral)
  have split: "answer_obs = map tick [0 ..< 56] @ (tick 56)\<lparr>seen_KnownIPs := [Some addr_C]\<rparr> # []"
    by (simp add: answer_obs_def)
  have quiet2: "\<forall>o' \<in> set (map tick [0 ..< 56]). seen_KnownIPs o' = [] \<and> \<not> sendNode_err o'"
    by (auto simp: tick_def)
  have at: "clock_since (last answer_obs) = 5600000000"
    by (simp add: answer_obs_def tick_def)
  have st2: "State (peer_waiting\<lparr>KnownIPs := [Some addr_C], State := PeerStateRequestingProxy\<rparr>)
               \<noteq> PeerStateDisconnect" by simp
  note t1 = stateRequestedIP_six_requests [where start = 0 and obs = tick_obs and np = peer_waiting
      and np' = "peer_waiting\<lparr>State := PeerStateDisconnect\<rparr>"
      and calls = "replicate 6 (SendNode ''id-b'') @ [SendState ''id-b'' PeerStateDisconnect]"
      and err = False and pre = "map tick [0 ..< 56]"
      and ob = "(tick 56)\<lparr>seen_KnownIPs := [Some addr_C]\<rparr>" and post = "[]"]
  note t2 = stateRequestedIP_six_requests [where start = 0 and obs = answer_obs and np = peer_waiting
      and np' = "peer_waiting\<lparr>KnownIPs := [Some addr_C], State := PeerStateRequestingProxy\<rparr>"
      and calls = "replicate 5 (SendNode ''id-b'') @ [SendState ''id-b'' PeerStateRequestingProxy]"
      and err = False and pre = "[]" and ob = "tick 0" and post = "[]"]
  from t1 run len have a: "stateRequestedIP tick_obs 0 peer_waiting \<noteq> None" by simp
  from t1 quiet ev1
  have b: "node_requests (replicate 6 (SendNode ''id-b'') @ [SendState ''id-b'' PeerStateDisconnect]) = 6"
    by blast
  have pre3: "clock_runs 0 (map tick [0 ..< 56] @ (tick 56)\<lparr>seen_KnownIPs := [Some addr_C]\<rparr> # [])
        \<and> (\<forall>o' \<in> set (map tick [0 ..< 56]). seen_KnownIPs o' = [] \<and> \<not> sendNode_err o')
        \<and> seen_KnownIPs ((tick 56)\<lparr>seen_KnownIPs := [Some addr_C]\<rparr>) \<noteq> []
        \<and> \<not> sendNode_err ((tick 56)\<lparr>seen_KnownIPs := [Some addr_C]\<rparr>)
        \<and> clock_since ((tick 56)\<lparr>seen_KnownIPs := [Some addr_C]\<rparr>) \<le> 0 + 6 * 1000000000"
    using run2 quiet2 unfolding split [symmetric] by (simp add: tick_def)
  from t1 pre3
  have c0: "\<exists>np2 calls2. stateRequestedIP answer_obs 0 peer_waiting = Some (np2, calls2, False)
            \<and> State np2 = PeerStateRequestingProxy"
    unfolding split [symmetric] by blast
  from t2 ev2 st2
  have c: "node_requests (replicate 5 (SendNode ''id-b'') @ [SendState ''id-b'' PeerStateRequestingProxy]) \<le> 5"
    by blast
  from run len a ev1 b run2 at ev2 c show ?thesis by blast
qed

section \<open>The peer table\<close>

text \<open>
  What an upsert does: it stores the pointer under the id and, for each of the peer's
  overlay IP and MAC that is not empty, maps it to the id. It removes nothing.
\<close>

lemma Update_eq:
  "peer_at h ptr = Some p \<Longrightarrow>
   Update l h uid ptr =
     Inr \<lparr>peers = (peers l)(uid \<mapsto> ptr),
          tableIPID = (if overlay_ip p \<noteq> [] then (tableIPID l)(overlay_ip p \<mapsto> uid)
                       else tableIPID l),
          tableMacID = (if overlay_mac p \<noteq> [] then (tableMacID l)(overlay_mac p \<mapsto> uid)
                        else tableMacID l)\<rparr>"
  by (simp add: Update_def operate_def updateTables_def overlay_ip_def overlay_mac_def Let_def)

lemma Update_lookups:
  assumes "peer_at h ptr = Some p" and "Update l h uid ptr = Inr l'"
  shows "GetPeer l' uid = ptr"
    and "overlay_ip p \<noteq> [] \<Longrightarrow> GetID l' (overlay_ip p) = Some uid"
    and "overlay_mac p \<noteq> [] \<Longrightarrow> tableMacID l' (overlay_mac p) = Some uid"
    and "ip \<noteq> overlay_ip p \<Longrightarrow> tableIPID l' ip = tableIPID l ip"
    and "mac \<noteq> overlay_mac p \<Longrightarrow> tableMacID l' mac = tableMacID l mac"
  using assms(2) unfolding Update_eq [OF assms(1)]
  by (auto simp: GetPeer_def GetID_def split: if_splits)

text \<open>
  The removal clears the index entries for the IP and MAC that the peer has when it is
  removed. A peer whose fields were set to nil in the meantime leaves both of its entries
  behind, and the lookup of its MAC then reads through a nil pointer.
\<close>

lemma delete_after_clear_leaves_entries:
  "Update Init [peer_ip_A] ''peer-1'' (Some 0) = Inr table_A
   \<and> Delete table_A [peer_cleared] ''peer-1'' = Inr table_gone
   \<and> GetEndpointAndProxy table_gone [peer_cleared] ''06:00:00:00:00:01'' = Inl NilDereference"
  by (simp add: Update_def Delete_def operate_def updateTables_def deleteTables_def Init_def
      table_A_def table_gone_def peer_ip_A_def peer_cleared_def peer_at_def IP_String_def
      HW_String_def GetEndpointAndProxy_def Let_def)

text \<open>
  Claim C4. An upsert is to bring both indexes in step with the peer, removing the
  mappings that became stale under the same id, so that the indexes agree with the primary
  store at every point. \<open>peer-1\<close> is upserted with IP \<open>10.0.0.1\<close> and the MAC ending in
  \<open>01\<close>; its IP and MAC change and it is upserted again. The second upsert adds the new
  mappings and leaves the old ones: the IP index still maps \<open>10.0.0.1\<close> to \<open>peer-1\<close>, whose
  IP is \<open>10.0.0.2\<close>. The removal of \<open>peer-1\<close> then clears the new mappings only: the old
  IP still resolves to \<open>peer-1\<close>, which is in the table no more, and the lookup of the old
  MAC reads through a nil pointer.
\<close>

theorem upsert_keeps_stale_mapping:
  "Update Init [peer_ip_A] ''peer-1'' (Some 0) = Inr table_A
   \<and> Update table_A [peer_ip_B] ''peer-1'' (Some 0) = Inr table_AB
   \<and> GetID table_AB ''10.0.0.1'' = Some ''peer-1''
   \<and> tableMacID table_AB ''06:00:00:00:00:01'' = Some ''peer-1''
   \<and> map_option PeerLocalIP (peer_at [peer_ip_B] (GetPeer table_AB ''peer-1'')) =
       Some (Some ''10.0.0.2'')
   \<and> map_option PeerHW (peer_at [peer_ip_B] (GetPeer table_AB ''peer-1'')) =
       Some (Some ''06:00:00:00:00:02'')
   \<and> Delete table_AB [peer_ip_B] ''peer-1'' = Inr table_gone
   \<and> GetPeer table_gone ''peer-1'' = None
   \<and> GetID table_gone ''10.0.0.1'' = Some ''peer-1''
   \<and> GetEndpointAndProxy table_gone [peer_ip_B] ''06:00:00:00:00:01'' = Inl NilDereference"
  by (simp add: Update_def Delete_def operate_def updateTables_def deleteTables_def Init_def
      table_A_def table_AB_def table_gone_def peer_ip_A_def peer_ip_B_def peer_at_def
      IP_String_def HW_String_def GetID_def GetPeer_def GetEndpointAndProxy_def Let_def)

end
